theory Spec2Isabelle
  imports Main "HOL-Library.AList"
begin

section \<open>Values of the request: JSON as the handlers see it\<close>

text \<open>
  The three servers of the repository (\<^verbatim>\<open>src/server/server.js\<close>, the Postgres draft appended
  to \<^verbatim>\<open>src/server/db.js\<close>, and the SQLite server \<^verbatim>\<open>src/unnamed/part_000\<close>) read a request
  body parsed by \<^verbatim>\<open>express.json\<close>. A parsed body is a JSON value.
  \<^item> A JavaScript string is a \<^typ>\<open>string\<close>, its characters those of \<^typ>\<open>char\<close>.
  \<^item> A number is an integer, which \<^verbatim>\<open>String\<close> writes in plain decimal (as JavaScript does
    below \<open>10\<^sup>2\<^sup>1\<close>). Numbers with a fraction are not in the model; where the code
    tells numbers apart at all, it is by their being zero and by their digits.
  \<^item> An object is the list of its own properties; the first entry for a name is the
    property.
  \<^item> \<^verbatim>\<open>undefined\<close> is \<open>None\<close> of \<^typ>\<open>'a option\<close>.
\<close>

datatype json =
    JNull
  | JBool bool
  | JNum int
  | JStr string
  | JArr "json list"
  | JObj "(string \<times> json) list"

datatype error = TypeError | SyntaxError

text \<open>Sequencing of computations that may throw: the first exception ends the run.\<close>

fun bind :: "error + 'a \<Rightarrow> ('a \<Rightarrow> error + 'b) \<Rightarrow> error + 'b" where
  "bind (Inl e) f = Inl e"
| "bind (Inr x) f = f x"

text \<open>JavaScript truthiness (\<^verbatim>\<open>ToBoolean\<close>); arrays and objects are always truthy.\<close>

fun truthy :: "json \<Rightarrow> bool" where
  "truthy JNull = False"
| "truthy (JBool b) = b"
| "truthy (JNum n) = (n \<noteq> 0)"
| "truthy (JStr s) = (s \<noteq> [])"
| "truthy (JArr xs) = True"
| "truthy (JObj kvs) = True"

text \<open>\<^verbatim>\<open>a || b\<close> where \<^verbatim>\<open>a\<close> may be \<^verbatim>\<open>undefined\<close>.\<close>

fun or_else :: "json option \<Rightarrow> json \<Rightarrow> json" where
  "or_else None d = d"
| "or_else (Some v) d = (if truthy v then v else d)"

text \<open>
  \<^verbatim>\<open>v?.k\<close>: \<^verbatim>\<open>undefined\<close> on \<^verbatim>\<open>undefined\<close> and \<^verbatim>\<open>null\<close>, the own property of an
  object, and \<^verbatim>\<open>undefined\<close> on every other value. The handlers read only the names
  \<^verbatim>\<open>preferences, dates, windows, customer, name, phone, email, address, line1, line2, city,
  state, zip, notes, status\<close>, none of which a prototype defines.
\<close>

fun get_prop :: "json option \<Rightarrow> string \<Rightarrow> json option" where
  "get_prop (Some (JObj kvs)) k = map_of kvs k"
| "get_prop _ k = None"

subsection \<open>Characters and strings\<close>

definition is_digit :: "char \<Rightarrow> bool" where
  "is_digit c = (c \<in> set ''0123456789'')"

text \<open>
  The white space that \<^verbatim>\<open>String.prototype.trim\<close> strips, as far as it lies in the
  character range of \<^typ>\<open>char\<close>: TAB, LF, VT, FF, CR, space and the no-break space.
\<close>

definition is_space :: "char \<Rightarrow> bool" where
  "is_space c = (c \<in> {CHR 0x09, CHR 0x0A, CHR 0x0B, CHR 0x0C, CHR 0x0D, CHR 0x20, CHR 0xA0})"

definition trim :: "string \<Rightarrow> string" where
  "trim s = rev (dropWhile is_space (rev (dropWhile is_space s)))"

text \<open>Decimal digits of a natural number, most significant first.\<close>

fun show_nat :: "nat \<Rightarrow> string" where
  "show_nat n =
     (if n < 10 then [''0123456789'' ! n]
      else show_nat (n div 10) @ [''0123456789'' ! (n mod 10)])"

declare show_nat.simps [simp del]

definition show_int :: "int \<Rightarrow> string" where
  "show_int i = (if i < 0 then CHR ''-'' # show_nat (nat (- i)) else show_nat (nat i))"

text \<open>
  \<^verbatim>\<open>String(v)\<close> and the coercion of a template literal (\<^verbatim>\<open>ToString\<close>). An array is the
  join of its elements with commas, \<^verbatim>\<open>null\<close> elements giving the empty string. An object
  prints as \<^verbatim>\<open>[object Object]\<close>, unless it has an own property \<^verbatim>\<open>toString\<close>: a parsed
  body holds no function, so that property is not callable, \<^verbatim>\<open>valueOf\<close> returns the
  object itself, and the coercion throws a TypeError.
\<close>

fun toString :: "json \<Rightarrow> error + string"
  and join_elems :: "json list \<Rightarrow> error + string" where
  "toString JNull = Inr ''null''"
| "toString (JBool b) = Inr (if b then ''true'' else ''false'')"
| "toString (JNum n) = Inr (show_int n)"
| "toString (JStr s) = Inr s"
| "toString (JArr xs) = join_elems xs"
| "toString (JObj kvs) =
     (if ''toString'' \<in> fst ` set kvs then Inl TypeError else Inr ''[object Object]'')"
| "join_elems [] = Inr []"
| "join_elems [x] = (if x = JNull then Inr [] else toString x)"
| "join_elems (x # y # ys) =
     bind (if x = JNull then Inr [] else toString x) (\<lambda>a.
     bind (join_elems (y # ys)) (\<lambda>b.
     Inr (a @ '','' @ b)))"

text \<open>A method call \<^verbatim>\<open>v.trim()\<close>: only a string has the method.\<close>

fun call_trim :: "json \<Rightarrow> error + string" where
  "call_trim (JStr s) = Inr (trim s)"
| "call_trim _ = Inl TypeError"

section \<open>Helpers of \<^verbatim>\<open>server.js\<close>\<close>

text \<open>
  \<^verbatim>\<open>function normalizePhone(phone) { return String(phone || "").replace(/\D/g, ""); }\<close>
\<close>

definition normalizePhone :: "json option \<Rightarrow> error + string" where
  "normalizePhone phone = bind (toString (or_else phone (JStr ''''))) (\<lambda>s. Inr (filter is_digit s))"

text \<open>
  A regular expression of the shape the source uses: a sequence of atoms between
  \<^verbatim>\<open>^\<close> and \<^verbatim>\<open>$\<close> (no flag, so \<^verbatim>\<open>$\<close> is the end of the input).
\<close>

datatype atom = Digit | Lit char

fun atom_ok :: "atom \<Rightarrow> char \<Rightarrow> bool" where
  "atom_ok Digit c = is_digit c"
| "atom_ok (Lit l) c = (c = l)"

fun anchored :: "atom list \<Rightarrow> string \<Rightarrow> bool" where
  "anchored [] s = (s = [])"
| "anchored (a # as) [] = False"
| "anchored (a # as) (c # cs) = (atom_ok a c \<and> anchored as cs)"

text \<open>\<^verbatim>\<open>/^\d{4}-\d{2}-\d{2}$/\<close>\<close>

definition iso_date_re :: "atom list" where
  "iso_date_re =
     [Digit, Digit, Digit, Digit, Lit CHR ''-'', Digit, Digit, Lit CHR ''-'', Digit, Digit]"

text \<open>
  \<^verbatim>\<open>function isValidISODate(iso) { return /^\d{4}-\d{2}-\d{2}$/.test(iso); }\<close>
  (\<^verbatim>\<open>test\<close> coerces its argument to a string).
\<close>

definition isValidISODate :: "json \<Rightarrow> error + bool" where
  "isValidISODate d = bind (toString d) (\<lambda>s. Inr (anchored iso_date_re s))"

section \<open>The validator of \<^verbatim>\<open>server.js\<close>\<close>

record 'v preferences =
  dates :: 'v
  windows :: 'v

record customer =
  name :: string
  phone :: string
  email :: "string option"

record address =
  line1 :: string
  line2 :: "string option"
  city :: string
  state :: string
  zip' :: string

record 'v cleaned =
  preferences :: "'v preferences"
  customer :: customer
  address :: address
  "notes" :: "string option"

text \<open>\<^verbatim>\<open>for (const d of dates) { if (!isValidISODate(d)) errors.push(`Invalid date: ${d}`); }\<close>\<close>

fun date_errors :: "json list \<Rightarrow> error + string list" where
  "date_errors [] = Inr []"
| "date_errors (d # ds) =
     bind (isValidISODate d) (\<lambda>ok.
     bind (if ok then Inr [] else bind (toString d) (\<lambda>s. Inr [''Invalid date: '' @ s])) (\<lambda>e.
     bind (date_errors ds) (\<lambda>es.
     Inr (e @ es))))"

definition allowedWindows :: "json set" where
  "allowedWindows = {JStr ''morning'', JStr ''afternoon'', JStr ''evening''}"

text \<open>\<^verbatim>\<open>for (const w of windows) { if (!allowedWindows.has(w)) errors.push(`Invalid window: ${w}`); }\<close>\<close>

fun window_errors :: "json list \<Rightarrow> error + string list" where
  "window_errors [] = Inr []"
| "window_errors (w # ws) =
     bind (if w \<in> allowedWindows then Inr []
           else bind (toString w) (\<lambda>s. Inr [''Invalid window: '' @ s])) (\<lambda>e.
     bind (window_errors ws) (\<lambda>es.
     Inr (e @ es)))"

text \<open>\<^verbatim>\<open>!Array.isArray(v) || v.length < 1\<close>\<close>

fun no_items :: "json option \<Rightarrow> bool" where
  "no_items (Some (JArr xs)) = (length xs < 1)"
| "no_items _ = True"

text \<open>\<^verbatim>\<open>if (Array.isArray(v)) { for (const x of v) ... }\<close>\<close>

fun each_item :: "(json list \<Rightarrow> error + string list) \<Rightarrow> json option \<Rightarrow> error + string list" where
  "each_item f (Some (JArr xs)) = f xs"
| "each_item f _ = Inr []"

text \<open>\<^verbatim>\<open>s || null\<close> on a string.\<close>

definition or_null :: "string \<Rightarrow> string option" where
  "or_null s = (if s = [] then None else Some s)"

text \<open>\<^verbatim>\<open>if (!s) errors.push(msg)\<close> on a string.\<close>

definition required :: "string \<Rightarrow> string \<Rightarrow> string list" where
  "required s msg = (if s = [] then [msg] else [])"

text \<open>\<^verbatim>\<open>(v || "").trim()\<close> on a property that may be missing.\<close>

definition trimmed :: "json option \<Rightarrow> error + string" where
  "trimmed v = call_trim (or_else v (JStr []))"

text \<open>
  \<^verbatim>\<open>validateBooking(body)\<close>, lines 67 to 121 of \<^verbatim>\<open>server.js\<close>. The list \<^verbatim>\<open>errors\<close> grows by
  \<^verbatim>\<open>push\<close> only, so it is the concatenation of what each statement pushes, in the order of
  the statements. An exception in any statement ends the call: no list is returned.
\<close>

definition validateBooking :: "json option \<Rightarrow> error + string list \<times> json cleaned" where
  "validateBooking body =
    (let dates = get_prop (get_prop body ''preferences'') ''dates'';
         windows = get_prop (get_prop body ''preferences'') ''windows'';
         e1 = (if no_items dates then [''Select at least 1 preferred day.''] else []);
         e2 = (if no_items windows then [''Select at least 1 time window.''] else [])
     in
     bind (each_item date_errors dates) (\<lambda>e3.
     bind (each_item window_errors windows) (\<lambda>e4.
     bind (trimmed (get_prop (get_prop body ''customer'') ''name'')) (\<lambda>name.
     bind (normalizePhone (Some (or_else (get_prop (get_prop body ''customer'') ''phone'') (JStr [])))) (\<lambda>phone.
     bind (trimmed (get_prop (get_prop body ''customer'') ''email'')) (\<lambda>email.
     bind (trimmed (get_prop (get_prop body ''address'') ''line1'')) (\<lambda>line1.
     bind (trimmed (get_prop (get_prop body ''address'') ''line2'')) (\<lambda>line2.
     bind (trimmed (get_prop (get_prop body ''address'') ''city'')) (\<lambda>city.
     bind (trimmed (get_prop (get_prop body ''address'') ''state'')) (\<lambda>state.
     bind (trimmed (get_prop (get_prop body ''address'') ''zip'')) (\<lambda>zip.
     bind (trimmed (get_prop body ''notes'')) (\<lambda>notes.
     Inr (e1 @ e2 @ e3 @ e4
            @ required name ''Name is required.''
            @ required phone ''Phone is required.''
            @ required line1 ''Street address is required.''
            @ required city ''City is required.''
            @ required zip ''ZIP is required.'',
          \<lparr> preferences = \<lparr> dates = or_else dates (JArr []), windows = or_else windows (JArr []) \<rparr>,
            customer = \<lparr> name = name, phone = phone, email = or_null email \<rparr>,
            address = \<lparr> line1 = line1, line2 = or_null line2, city = city,
                        state = (if state = [] then ''UT'' else state), zip' = zip \<rparr>,
            notes = or_null notes \<rparr>)))))))))))))"

section \<open>The validator of the SQLite server\<close>

text \<open>
  \<^verbatim>\<open>validate(body)\<close>, lines 17 to 63 of \<^verbatim>\<open>src/unnamed/part_000\<close>: the validator of
  \<^verbatim>\<open>server.js\<close> with another first message, a required state, and the sequences returned
  as they came.
\<close>

definition validate :: "json option \<Rightarrow> error + string list \<times> json option cleaned" where
  "validate body =
    (let dates = get_prop (get_prop body ''preferences'') ''dates'';
         windows = get_prop (get_prop body ''preferences'') ''windows'';
         e1 = (if no_items dates then [''Select at least 1 day.''] else []);
         e2 = (if no_items windows then [''Select at least 1 time window.''] else [])
     in
     bind (each_item date_errors dates) (\<lambda>e3.
     bind (each_item window_errors windows) (\<lambda>e4.
     bind (trimmed (get_prop (get_prop body ''customer'') ''name'')) (\<lambda>name.
     bind (normalizePhone (Some (or_else (get_prop (get_prop body ''customer'') ''phone'') (JStr [])))) (\<lambda>phone.
     bind (trimmed (get_prop (get_prop body ''customer'') ''email'')) (\<lambda>email.
     bind (trimmed (get_prop (get_prop body ''address'') ''line1'')) (\<lambda>line1.
     bind (trimmed (get_prop (get_prop body ''address'') ''line2'')) (\<lambda>line2.
     bind (trimmed (get_prop (get_prop body ''address'') ''city'')) (\<lambda>city.
     bind (trimmed (get_prop (get_prop body ''address'') ''state'')) (\<lambda>state.
     bind (trimmed (get_prop (get_prop body ''address'') ''zip'')) (\<lambda>zip.
     bind (trimmed (get_prop body ''notes'')) (\<lambda>notes.
     Inr (e1 @ e2 @ e3 @ e4
            @ required name ''Name is required.''
            @ required phone ''Phone is required.''
            @ required line1 ''Street address is required.''
            @ required city ''City is required.''
            @ required state ''State is required.''
            @ required zip ''ZIP is required.'',
          \<lparr> preferences = \<lparr> dates = dates, windows = windows \<rparr>,
            customer = \<lparr> name = name, phone = phone, email = or_null email \<rparr>,
            address = \<lparr> line1 = line1, line2 = or_null line2, city = city, state = state, zip' = zip \<rparr>,
            notes = or_null notes \<rparr>)))))))))))))"

section \<open>Requests, responses and the store\<close>

text \<open>
  What the handlers read of a request: the header \<^verbatim>\<open>x-admin-key\<close>, the query parameter
  \<^verbatim>\<open>status\<close> (a string, or an array or object of the query parser), the route parameter
  \<^verbatim>\<open>:id\<close> and the parsed body. \<^verbatim>\<open>process.env.ADMIN_KEY\<close> is the one variable of the
  environment that they read.
\<close>

record request =
  x_admin_key :: "string option"
  query_status :: "json option"
  param_id :: string
  body :: "json option"

record env =
  ADMIN_KEY :: "string option"

text \<open>The JSON documents that the handlers send, with the HTTP status code.\<close>

datatype 'r reply =
    Ok
  | OkRequestId int
  | OkRequests "'r list"
  | Error string
  | Errors "string list"

datatype 'r response = Response (code: nat) (payload: "'r reply")

text \<open>
  The table \<^verbatim>\<open>booking_requests\<close>. The columns that every server shares, then the two
  layouts of the date and window sequences: \<^verbatim>\<open>jsonb\<close> columns, which the Postgres driver
  hands over as values, and the text columns of \<^verbatim>\<open>db.js\<close>. The listing of the SQLite
  server adds the parsed sequences to each row.
\<close>

record columns =
  id' :: int
  created_at :: int
  col_name :: string
  col_phone :: string
  col_email :: "string option"
  col_line1 :: string
  col_line2 :: "string option"
  col_city :: string
  col_state :: string
  col_zip :: string
  col_notes :: "string option"
  status :: string

record pg_row = columns +
  pg_preferred_dates :: json
  pg_preferred_windows :: json

record lite_row = columns +
  preferred_dates_json :: string
  preferred_windows_json :: string

record listed_row = lite_row +
  preferred_dates :: json
  preferred_windows :: json

text \<open>
  The store behind \<^verbatim>\<open>pool\<close> and \<^verbatim>\<open>db\<close>: the rows of the table; \<open>fault\<close>, the message
  of the error with which the store rejects a statement (\<open>None\<close> when it executes it);
  \<open>key_of\<close>, how the store reads the text of a parameter compared with the integer column
  \<^verbatim>\<open>id\<close> (\<open>Inl\<close> the message of its rejection); the next value of the generated \<^verbatim>\<open>id\<close>
  and the time that the column default of \<^verbatim>\<open>created_at\<close> reads.
\<close>

record 'r store =
  rows :: "'r list"
  fault :: "string option"
  key_of :: "string \<Rightarrow> string + int"
  next_id :: int
  clock :: int

text \<open>
  \<^verbatim>\<open>SELECT * FROM booking_requests WHERE status = $1 ORDER BY created_at DESC LIMIT 500\<close>.
  SQL leaves the order of rows with equal \<^verbatim>\<open>created_at\<close> open; the model keeps them in
  table order.
\<close>

definition select_by_status :: "string \<Rightarrow> 'a columns_scheme list \<Rightarrow> 'a columns_scheme list" where
  "select_by_status s rs = take 500 (sort_key (\<lambda>r. - created_at r) (filter (\<lambda>r. status r = s) rs))"

text \<open>\<^verbatim>\<open>UPDATE booking_requests SET status = $1 WHERE id = $2 RETURNING id\<close> and its \<^verbatim>\<open>rowCount\<close>.\<close>

definition update_status :: "string \<Rightarrow> int \<Rightarrow> 'a columns_scheme list \<Rightarrow> 'a columns_scheme list" where
  "update_status s k rs = map (\<lambda>r. if id' r = k then r\<lparr>status := s\<rparr> else r) rs"

definition rowCount :: "int \<Rightarrow> 'a columns_scheme list \<Rightarrow> nat" where
  "rowCount k rs = length (filter (\<lambda>r. id' r = k) rs)"

definition update_query :: "pg_row store \<Rightarrow> string \<Rightarrow> string \<Rightarrow> string + nat \<times> pg_row store" where
  "update_query st s idtext =
     (case fault st of
        Some m \<Rightarrow> Inl m
      | None \<Rightarrow>
          (case key_of st idtext of
             Inl m \<Rightarrow> Inl m
           | Inr k \<Rightarrow> Inr (rowCount k (rows st), st\<lparr>rows := update_status s k (rows st)\<rparr>)))"

text \<open>\<^verbatim>\<open>err.message || fallback\<close>\<close>

definition message_or :: "string \<Rightarrow> string \<Rightarrow> string" where
  "message_or m fallback = (if m = [] then fallback else m)"

section \<open>The admin routes of \<^verbatim>\<open>server.js\<close>\<close>

text \<open>
  \<^verbatim>\<open>requireAdmin(req, res, next)\<close>, lines 123 to 129. \<open>next\<close> is the rest of the route: it is
  run on the store only in the second branch. A handler returns its response and the store
  that it leaves, or the exception that escapes it.
\<close>

definition requireAdmin ::
  "env \<Rightarrow> request \<Rightarrow> ('r store \<Rightarrow> error + 'a response \<times> 'r store) \<Rightarrow> 'r store
   \<Rightarrow> error + 'a response \<times> 'r store" where
  "requireAdmin e req next st =
     (let key = x_admin_key req in
      if (ADMIN_KEY e = None \<or> ADMIN_KEY e = Some []) \<or> key \<noteq> ADMIN_KEY e
      then Inr (Response 401 (Error ''Unauthorized''), st)
      else next st)"

text \<open>The handler of \<^verbatim>\<open>GET /api/admin/requests\<close>, lines 202 to 225.\<close>

definition admin_list :: "request \<Rightarrow> pg_row store \<Rightarrow> error + pg_row response \<times> pg_row store" where
  "admin_list req st =
     bind (toString (or_else (query_status req) (JStr ''requested''))) (\<lambda>s.
     let status = trim s in
     (case fault st of
        None \<Rightarrow> Inr (Response 200 (OkRequests (select_by_status status (rows st))), st)
      | Some m \<Rightarrow> Inr (Response 500 (Error (message_or m ''Database read failed'')), st)))"

definition allowed :: "string set" where
  "allowed = {''requested'', ''scheduled'', ''cancelled''}"

text \<open>The handler of \<^verbatim>\<open>PATCH /api/admin/requests/:id\<close>, lines 228 to 258.\<close>

definition admin_update :: "request \<Rightarrow> pg_row store \<Rightarrow> error + pg_row response \<times> pg_row store" where
  "admin_update req st =
     (let id = param_id req in
      bind (toString (or_else (get_prop (body req) ''status'') (JStr []))) (\<lambda>s.
      let status = trim s in
      if status \<notin> allowed
      then Inr (Response 400 (Error ''Invalid status. Use: requested | scheduled | cancelled''), st)
      else
        (case update_query st status id of
           Inr (n, st') \<Rightarrow>
             if n = 0 then Inr (Response 404 (Error ''Not found''), st')
             else Inr (Response 200 Ok, st')
         | Inl m \<Rightarrow> Inr (Response 500 (Error (message_or m ''Database update failed'')), st))))"

text \<open>The two routes as \<^verbatim>\<open>server.js\<close> registers them.\<close>

definition get_admin_requests :: "env \<Rightarrow> request \<Rightarrow> pg_row store \<Rightarrow> error + pg_row response \<times> pg_row store" where
  "get_admin_requests e req = requireAdmin e req (admin_list req)"

definition patch_admin_requests :: "env \<Rightarrow> request \<Rightarrow> pg_row store \<Rightarrow> error + pg_row response \<times> pg_row store" where
  "patch_admin_requests e req = requireAdmin e req (admin_update req)"

section \<open>The SQLite server, \<^verbatim>\<open>src/unnamed/part_000\<close>\<close>

text \<open>
  \<^verbatim>\<open>JSON.stringify\<close>: a string is quoted, with the quotation mark, the backslash and the
  control characters escaped; an array and an object are written without blanks. An object
  is written in the order of its property list.
\<close>

definition hex_digit :: "nat \<Rightarrow> char" where
  "hex_digit n = ''0123456789abcdef'' ! (n mod 16)"

definition escape_char :: "char \<Rightarrow> string" where
  "escape_char c =
     (if c = CHR 0x22 then [CHR 0x5C, CHR 0x22]
      else if c = CHR 0x5C then [CHR 0x5C, CHR 0x5C]
      else if c = CHR 0x08 then [CHR 0x5C, CHR ''b'']
      else if c = CHR 0x0C then [CHR 0x5C, CHR ''f'']
      else if c = CHR 0x0A then [CHR 0x5C, CHR ''n'']
      else if c = CHR 0x0D then [CHR 0x5C, CHR ''r'']
      else if c = CHR 0x09 then [CHR 0x5C, CHR ''t'']
      else if (of_char c :: nat) < 32
        then [CHR 0x5C, CHR ''u'', CHR ''0'', CHR ''0'', hex_digit (of_char c div 16), hex_digit (of_char c)]
      else [c])"

definition quote :: "string \<Rightarrow> string" where
  "quote s = CHR 0x22 # concat (map escape_char s) @ [CHR 0x22]"

fun join :: "string \<Rightarrow> string list \<Rightarrow> string" where
  "join sep [] = []"
| "join sep [x] = x"
| "join sep (x # y # ys) = x @ sep @ join sep (y # ys)"

fun JSON_stringify :: "json \<Rightarrow> string" where
  "JSON_stringify JNull = ''null''"
| "JSON_stringify (JBool b) = (if b then ''true'' else ''false'')"
| "JSON_stringify (JNum n) = show_int n"
| "JSON_stringify (JStr s) = quote s"
| "JSON_stringify (JArr xs) = ''['' @ join '','' (map JSON_stringify xs) @ '']''"
| "JSON_stringify (JObj kvs) =
     ''{'' @ join '','' (map (\<lambda>(k, v). quote k @ '':'' @ JSON_stringify v) kvs) @ ''}''"


text \<open>
  \<^verbatim>\<open>JSON.parse\<close>, by recursive descent. The first argument of \<open>parse_value\<close> bounds the
  number of nested calls; \<open>JSON_parse\<close> starts it with the length of the text. Repeated
  keys of an object keep their first position and their last value. A number with a
  fraction or an exponent and an escape \<^verbatim>\<open>\uXXXX\<close> above \<^verbatim>\<open>00ff\<close> have no value in
  \<^typ>\<open>json\<close>: the model has no result for a text that holds one.
\<close>

definition json_ws :: "char \<Rightarrow> bool" where
  "json_ws c = (c \<in> {CHR 0x20, CHR 0x09, CHR 0x0A, CHR 0x0D})"

definition skip_ws :: "string \<Rightarrow> string" where
  "skip_ws s = dropWhile json_ws s"

definition hex_value :: "char \<Rightarrow> nat option" where
  "hex_value c = map_of (zip ''0123456789abcdefABCDEF'' ([0 ..< 16] @ [10 ..< 16])) c"

definition unescape :: "char \<Rightarrow> char option" where
  "unescape e = map_of
     [(CHR 0x22, CHR 0x22), (CHR 0x5C, CHR 0x5C), (CHR ''/'', CHR ''/''), (CHR ''b'', CHR 0x08),
      (CHR ''f'', CHR 0x0C), (CHR ''n'', CHR 0x0A), (CHR ''r'', CHR 0x0D), (CHR ''t'', CHR 0x09)] e"

definition unicode_escape :: "char \<Rightarrow> char \<Rightarrow> char \<Rightarrow> char \<Rightarrow> char option" where
  "unicode_escape a b c d =
     (case (hex_value a, hex_value b, hex_value c, hex_value d) of
        (Some 0, Some 0, Some h, Some l) \<Rightarrow> Some (char_of (16 * h + l))
      | _ \<Rightarrow> None)"

fun parse_chars :: "string \<Rightarrow> (string \<times> string) option" where
  "parse_chars [] = None"
| "parse_chars (c # cs) =
     (if c = CHR 0x22 then Some ([], cs)
      else if c = CHR 0x5C then
        (case cs of
           [] \<Rightarrow> None
         | e # es \<Rightarrow>
             if e = CHR ''u'' then
               (case es of
                  a # b # c # d # rest \<Rightarrow>
                    (case unicode_escape a b c d of
                       None \<Rightarrow> None
                     | Some u \<Rightarrow> map_option (apfst ((#) u)) (parse_chars rest))
                | _ \<Rightarrow> None)
             else
               (case unescape e of
                  None \<Rightarrow> None
                | Some u \<Rightarrow> map_option (apfst ((#) u)) (parse_chars es)))
      else if (of_char c :: nat) < 32 then None
      else map_option (apfst ((#) c)) (parse_chars cs))"

definition parse_int :: "string \<Rightarrow> (int \<times> string) option" where
  "parse_int s =
     (let (neg, t) = (case s of c # cs \<Rightarrow> if c = CHR ''-'' then (True, cs) else (False, s) | [] \<Rightarrow> (False, s));
          ds = takeWhile is_digit t;
          rest = dropWhile is_digit t
      in if ds = [] \<or> (length ds > 1 \<and> hd ds = CHR ''0'') then None
         else if rest \<noteq> [] \<and> hd rest \<in> {CHR ''.'', CHR ''e'', CHR ''E''} then None
         else let n = foldl (\<lambda>a d. 10 * a + (of_char d - 48)) (0::nat) ds
              in Some (if neg then - int n else int n, rest))"

fun strip_prefix :: "string \<Rightarrow> string \<Rightarrow> string option" where
  "strip_prefix [] s = Some s"
| "strip_prefix (p # ps) [] = None"
| "strip_prefix (p # ps) (c # cs) = (if p = c then strip_prefix ps cs else None)"

fun parse_value :: "nat \<Rightarrow> string \<Rightarrow> (json \<times> string) option"
  and parse_items :: "nat \<Rightarrow> string \<Rightarrow> (json list \<times> string) option"
  and parse_members :: "nat \<Rightarrow> string \<Rightarrow> ((string \<times> json) list \<times> string) option" where
  "parse_value 0 s = None"
| "parse_value (Suc n) s =
     (case skip_ws s of
        [] \<Rightarrow> None
      | c # cs \<Rightarrow>
          if c = CHR 0x22 then map_option (apfst JStr) (parse_chars cs)
          else if c = CHR ''['' then
            (case skip_ws cs of
               [] \<Rightarrow> None
             | d # ds \<Rightarrow> if d = CHR '']'' then Some (JArr [], ds)
                         else map_option (apfst JArr) (parse_items n cs))
          else if c = CHR ''{'' then
            (case skip_ws cs of
               [] \<Rightarrow> None
             | d # ds \<Rightarrow> if d = CHR ''}'' then Some (JObj [], ds)
                         else map_option (apfst (\<lambda>ms. JObj (foldl (\<lambda>acc (k, v). AList.update k v acc) [] ms)))
                                (parse_members n cs))
          else if c = CHR ''n'' then map_option (Pair JNull) (strip_prefix ''ull'' cs)
          else if c = CHR ''t'' then map_option (Pair (JBool True)) (strip_prefix ''rue'' cs)
          else if c = CHR ''f'' then map_option (Pair (JBool False)) (strip_prefix ''alse'' cs)
          else map_option (apfst JNum) (parse_int (c # cs)))"
| "parse_items 0 s = None"
| "parse_items (Suc n) s =
     (case parse_value n s of
        None \<Rightarrow> None
      | Some (v, rest) \<Rightarrow>
          (case skip_ws rest of
             [] \<Rightarrow> None
           | c # cs \<Rightarrow>
               if c = CHR '']'' then Some ([v], cs)
               else if c = CHR '','' then map_option (apfst ((#) v)) (parse_items n cs)
               else None))"
| "parse_members 0 s = None"
| "parse_members (Suc n) s =
     (case skip_ws s of
        [] \<Rightarrow> None
      | q # qs \<Rightarrow>
          if q \<noteq> CHR 0x22 then None
          else
            (case parse_chars qs of
               None \<Rightarrow> None
             | Some (k, rest) \<Rightarrow>
                 (case skip_ws rest of
                    [] \<Rightarrow> None
                  | c # cs \<Rightarrow>
                      if c \<noteq> CHR '':'' then None
                      else
                        (case parse_value n cs of
                           None \<Rightarrow> None
                         | Some (v, rest') \<Rightarrow>
                             (case skip_ws rest' of
                                [] \<Rightarrow> None
                              | e # es \<Rightarrow>
                                  if e = CHR ''}'' then Some ([(k, v)], es)
                                  else if e = CHR '','' then map_option (apfst ((#) (k, v))) (parse_members n es)
                                  else None)))))"

definition JSON_parse :: "string \<Rightarrow> error + json" where
  "JSON_parse s =
     (case parse_value (length s) s of
        None \<Rightarrow> Inl SyntaxError
      | Some (v, rest) \<Rightarrow> if skip_ws rest = [] then Inr v else Inl SyntaxError)"

text \<open>
  The \<^verbatim>\<open>INSERT\<close> of lines 72 to 90. \<^verbatim>\<open>JSON.stringify(undefined)\<close> is \<^verbatim>\<open>undefined\<close>, which
  the columns \<^verbatim>\<open>preferred_dates_json\<close> and \<^verbatim>\<open>preferred_windows_json\<close>, declared
  \<^verbatim>\<open>NOT NULL\<close>, refuse. The columns \<^verbatim>\<open>id\<close>, \<^verbatim>\<open>created_at\<close> and \<^verbatim>\<open>status\<close> take their defaults.
\<close>

definition insert_request :: "lite_row store \<Rightarrow> json option cleaned \<Rightarrow> string + int \<times> lite_row store" where
  "insert_request st c =
     (case fault st of
        Some m \<Rightarrow> Inl m
      | None \<Rightarrow>
          (case (map_option JSON_stringify (dates (preferences c)),
                 map_option JSON_stringify (windows (preferences c))) of
             (Some dj, Some wj) \<Rightarrow>
               Inr (next_id st,
                    st\<lparr>rows := rows st @
                         [\<lparr> id' = next_id st, created_at = clock st,
                            col_name = name (customer c), col_phone = phone (customer c),
                            col_email = email (customer c),
                            col_line1 = line1 (address c), col_line2 = line2 (address c),
                            col_city = city (address c), col_state = state (address c),
                            col_zip = zip' (address c), col_notes = notes c,
                            status = ''requested'',
                            preferred_dates_json = dj, preferred_windows_json = wj \<rparr>],
                       next_id := next_id st + 1\<rparr>)
           | _ \<Rightarrow> Inl ''NOT NULL constraint failed''))"

text \<open>The handler of \<^verbatim>\<open>POST /api/booking-request\<close>, lines 66 to 96.\<close>

definition post_booking_request ::
  "request \<Rightarrow> lite_row store \<Rightarrow> error + listed_row response \<times> lite_row store" where
  "post_booking_request req st =
     bind (validate (body req)) (\<lambda>(errors, cleaned).
     if errors \<noteq> [] then Inr (Response 400 (Errors errors), st)
     else
       (case insert_request st cleaned of
          Inl m \<Rightarrow> Inr (Response 500 (Error ''Database insert failed.''), st)
        | Inr (lastID, st') \<Rightarrow> Inr (Response 200 (OkRequestId lastID), st')))"

text \<open>
  The callback of \<^verbatim>\<open>rows.map\<close> in the listing, lines 113 to 117:
  \<^verbatim>\<open>r => ({...r, preferred_dates: JSON.parse(r.preferred_dates_json),
  preferred_windows: JSON.parse(r.preferred_windows_json)})\<close>.
\<close>

definition list_entry :: "lite_row \<Rightarrow> error + listed_row" where
  "list_entry r =
     bind (JSON_parse (preferred_dates_json r)) (\<lambda>d.
     bind (JSON_parse (preferred_windows_json r)) (\<lambda>w.
     Inr (lite_row.extend r (listed_row.fields d w))))"

text \<open>\<^verbatim>\<open>rows.map(f)\<close> with a callback that may throw.\<close>

fun map_rows :: "('a \<Rightarrow> error + 'b) \<Rightarrow> 'a list \<Rightarrow> error + 'b list" where
  "map_rows f [] = Inr []"
| "map_rows f (r # rs) = bind (f r) (\<lambda>y. bind (map_rows f rs) (\<lambda>ys. Inr (y # ys)))"

text \<open>
  The handler of \<^verbatim>\<open>GET /api/admin/requests\<close> of this server, lines 99 to 122. The route
  has no middleware before the handler.
\<close>

definition list_requests ::
  "request \<Rightarrow> lite_row store \<Rightarrow> error + listed_row response \<times> lite_row store" where
  "list_requests req st =
     bind (call_trim (or_else (query_status req) (JStr ''requested''))) (\<lambda>status.
     (case fault st of
        Some m \<Rightarrow> Inr (Response 500 (Error ''Database read failed.''), st)
      | None \<Rightarrow>
          bind (map_rows list_entry (select_by_status status (rows st))) (\<lambda>out.
          Inr (Response 200 (OkRequests out), st))))"

section \<open>Notions of the specification\<close>

text \<open>
  The date format as the specification words it, \<^verbatim>\<open>YYYY-MM-DD\<close>: ten characters, four
  digits, a hyphen, two digits, a hyphen, two digits.
\<close>

definition date_shaped :: "string \<Rightarrow> bool" where
  "date_shaped s =
     (length s = 10 \<and> list_all is_digit (take 4 s) \<and> s ! 4 = CHR ''-''
      \<and> list_all is_digit (take 2 (drop 5 s)) \<and> s ! 7 = CHR ''-''
      \<and> list_all is_digit (drop 8 s))"

text \<open>
  A caller is authorized when the shared secret is configured and the header
  \<^verbatim>\<open>x-admin-key\<close> carries it.
\<close>

definition authorized :: "env \<Rightarrow> request \<Rightarrow> bool" where
  "authorized e req =
     (case ADMIN_KEY e of None \<Rightarrow> False | Some k \<Rightarrow> k \<noteq> [] \<and> x_admin_key req = Some k)"

text \<open>
  The values that the two validators let through as elements of the date and window
  sequences are built of arrays and of strings that \<^verbatim>\<open>JSON.stringify\<close> writes without an
  escape.
\<close>

definition plain_char :: "char \<Rightarrow> bool" where
  "plain_char c = (c \<noteq> CHR 0x22 \<and> c \<noteq> CHR 0x5C \<and> 32 \<le> (of_char c :: nat))"

fun simple :: "json \<Rightarrow> bool" where
  "simple (JStr s) = list_all plain_char s"
| "simple (JArr xs) = list_all simple xs"
| "simple _ = False"

section \<open>Example data\<close>

text \<open>
  The valid submission of the specification's testable properties (no state, no email,
  no notes), with the two sequences left open, and the record that \<open>validateBooking\<close>
  returns for it.
\<close>

definition submission :: "json list \<Rightarrow> json list \<Rightarrow> json" where
  "submission ds ws = JObj
     [(''preferences'', JObj [(''dates'', JArr ds), (''windows'', JArr ws)]),
      (''customer'', JObj [(''name'', JStr ''Jane Doe''), (''phone'', JStr ''(555) 123-4567'')]),
      (''address'', JObj [(''line1'', JStr ''1 Main St''), (''city'', JStr ''Provo''),
                          (''zip'', JStr ''84601'')])]"

definition submitted :: "'v \<Rightarrow> 'v \<Rightarrow> string \<Rightarrow> 'v cleaned" where
  "submitted d w st =
     \<lparr> preferences = \<lparr> dates = d, windows = w \<rparr>,
       customer = \<lparr> name = ''Jane Doe'', phone = ''5551234567'', email = None \<rparr>,
       address = \<lparr> line1 = ''1 Main St'', line2 = None, city = ''Provo'', state = st,
                   zip' = ''84601'' \<rparr>,
       notes = None \<rparr>"

text \<open>A field that is absent or that trims to the empty string.\<close>

definition blank :: "json option \<Rightarrow> bool" where
  "blank v = (case v of None \<Rightarrow> True | Some (JStr s) \<Rightarrow> trim s = [] | Some _ \<Rightarrow> False)"

text \<open>
  A Postgres table of two requests, in a store that reads the texts \<^verbatim>\<open>7\<close>, \<^verbatim>\<open>8\<close> and
  \<^verbatim>\<open>9\<close> as keys, an environment with a configured secret, and the requests of a caller
  who presents it.
\<close>

definition request_row :: "int \<Rightarrow> int \<Rightarrow> string \<Rightarrow> pg_row" where
  "request_row k t s =
     \<lparr> id' = k, created_at = t, col_name = ''Jane Doe'', col_phone = ''5551234567'',
       col_email = None, col_line1 = ''1 Main St'', col_line2 = None, col_city = ''Provo'',
       col_state = ''UT'', col_zip = ''84601'', col_notes = None, status = s,
       pg_preferred_dates = JArr [JStr ''2025-03-01''],
       pg_preferred_windows = JArr [JStr ''morning''] \<rparr>"

definition read_key :: "string \<Rightarrow> string + int" where
  "read_key t =
     (if t = ''7'' then Inr 7 else if t = ''8'' then Inr 8 else if t = ''9'' then Inr 9
      else Inl ''invalid input syntax for type integer'')"

definition desk :: "pg_row store" where
  "desk = \<lparr> rows = [request_row 7 100 ''requested'', request_row 8 200 ''requested''],
            fault = None, key_of = read_key, next_id = 9, clock = 300 \<rparr>"

definition office :: env where
  "office = \<lparr> ADMIN_KEY = Some ''s3cret'' \<rparr>"

definition admin_request :: "json option \<Rightarrow> string \<Rightarrow> json option \<Rightarrow> request" where
  "admin_request q i b = \<lparr> x_admin_key = Some ''s3cret'', query_status = q, param_id = i, body = b \<rparr>"

text \<open>The table of the SQLite server after the valid submission, and a caller without a key.\<close>

definition stored_row :: lite_row where
  "stored_row =
     \<lparr> id' = 1, created_at = 0, col_name = ''Jane Doe'', col_phone = ''5551234567'',
       col_email = None, col_line1 = ''1 Main St'', col_line2 = None, col_city = ''Provo'',
       col_state = ''UT'', col_zip = ''84601'', col_notes = None, status = ''requested'',
       preferred_dates_json = JSON_stringify (JArr [JStr ''2025-03-01'']),
       preferred_windows_json = JSON_stringify (JArr [JStr ''morning'']) \<rparr>"

definition shop :: "lite_row store" where
  "shop = \<lparr> rows = [stored_row], fault = None, key_of = read_key, next_id = 2, clock = 0 \<rparr>"

definition anonymous :: request where
  "anonymous = \<lparr> x_admin_key = None, query_status = None, param_id = [], body = None \<rparr>"

text \<open>The same submission with a state, and the empty table of the SQLite server.\<close>

definition full_submission :: json where
  "full_submission = JObj
     [(''preferences'', JObj [(''dates'', JArr [JStr ''2025-03-01'']),
                              (''windows'', JArr [JStr ''morning''])]),
      (''customer'', JObj [(''name'', JStr ''Jane Doe''), (''phone'', JStr ''(555) 123-4567'')]),
      (''address'', JObj [(''line1'', JStr ''1 Main St''), (''city'', JStr ''Provo''),
                          (''state'', JStr ''UT''), (''zip'', JStr ''84601'')])]"

definition empty_shop :: "lite_row store" where
  "empty_shop = \<lparr> rows = [], fault = None, key_of = read_key, next_id = 1, clock = 0 \<rparr>"

text \<open>
  The inputs on which the statements of \<open>validateBooking\<close> run to the end: every text
  field is missing, falsy or a string, and every value that is coerced to a string (the
  phone, the elements of the dates, the elements of the windows outside the allowed set)
  has a string form.
\<close>

definition textual :: "json option \<Rightarrow> bool" where
  "textual v = (case or_else v (JStr []) of JStr s \<Rightarrow> True | _ \<Rightarrow> False)"

definition printable :: "json \<Rightarrow> bool" where
  "printable v = (\<not> isl (toString v))"

definition completes :: "json option \<Rightarrow> bool" where
  "completes b =
     ((case get_prop (get_prop b ''preferences'') ''dates'' of
         Some (JArr ds) \<Rightarrow> list_all printable ds | _ \<Rightarrow> True)
      \<and> (case get_prop (get_prop b ''preferences'') ''windows'' of
         Some (JArr ws) \<Rightarrow> list_all (\<lambda>w. w \<in> allowedWindows \<or> printable w) ws | _ \<Rightarrow> True)
      \<and> textual (get_prop (get_prop b ''customer'') ''name'')
      \<and> printable (or_else (get_prop (get_prop b ''customer'') ''phone'') (JStr []))
      \<and> textual (get_prop (get_prop b ''customer'') ''email'')
      \<and> textual (get_prop (get_prop b ''address'') ''line1'')
      \<and> textual (get_prop (get_prop b ''address'') ''line2'')
      \<and> textual (get_prop (get_prop b ''address'') ''city'')
      \<and> textual (get_prop (get_prop b ''address'') ''state'')
      \<and> textual (get_prop (get_prop b ''address'') ''zip'')
      \<and> textual (get_prop b ''notes''))"

section \<open>Sequencing\<close>

lemma bind_eq_Inr: "(bind m f = Inr y) = (\<exists>x. m = Inr x \<and> f x = Inr y)"
  by (cases m) auto

lemma bind_eq_Inl: "(bind m f = Inl e) = (m = Inl e \<or> (\<exists>x. m = Inr x \<and> f x = Inl e))"
  by (cases m) auto

section \<open>Phone normalization\<close>

lemma normalizePhone_JStr: "normalizePhone (Some (JStr s)) = Inr (filter is_digit s)"
  by (simp add: normalizePhone_def)

lemma normalizePhone_digits: "normalizePhone v = Inr t \<Longrightarrow> list_all is_digit t"
  by (auto simp: normalizePhone_def bind_eq_Inr list_all_iff)

lemma normalizePhone_again: "normalizePhone v = Inr t \<Longrightarrow> normalizePhone (Some (JStr t)) = Inr t"
  by (auto simp: normalizePhone_def bind_eq_Inr)

text \<open>
  Claim C8. On a string, \<open>normalizePhone\<close> returns the string without the characters that are
  not digits; normalizing the result again returns the result; and a string of digits only
  is returned as it is.
\<close>

theorem normalizePhone_idempotent:
  "normalizePhone (Some (JStr s)) = Inr (filter is_digit s)
   \<and> bind (normalizePhone (Some (JStr s))) (\<lambda>t. normalizePhone (Some (JStr t)))
       = normalizePhone (Some (JStr s))
   \<and> (list_all is_digit s \<longrightarrow> normalizePhone (Some (JStr s)) = Inr s)"
  by (simp add: normalizePhone_JStr list_all_iff)

theorem normalizePhone_idempotent_witness:
  "list_all is_digit ''5551234567''
   \<and> normalizePhone (Some (JStr ''5551234567'')) = Inr ''5551234567''
   \<and> normalizePhone (Some (JStr ''(555) 123-4567'')) = Inr ''5551234567''"
  using normalizePhone_idempotent [of "''5551234567''"] normalizePhone_idempotent [of "''(555) 123-4567''"]
  by (simp add: is_digit_def)

section \<open>The date pattern\<close>

lemma anchored_Cons: "anchored (a # as) s = (\<exists>c cs. s = c # cs \<and> atom_ok a c \<and> anchored as cs)"
  by (cases s) auto

lemma length_10: "(length s = 10) = (\<exists>a b c d e f g h i j. s = [a, b, c, d, e, f, g, h, i, j])"
  by (auto simp: numeral_eq_Suc length_Suc_conv)

lemma anchored_iso_date_re: "anchored iso_date_re s = date_shaped s"
proof (cases "length s = 10")
  case True
  then obtain a b c d e f g h i j where "s = [a, b, c, d, e, f, g, h, i, j]"
    unfolding length_10 by blast
  then show ?thesis
    by (auto simp: iso_date_re_def date_shaped_def)
next
  case False
  have "anchored iso_date_re s \<Longrightarrow> length s = 10"
    unfolding iso_date_re_def anchored_Cons by auto
  with False show ?thesis
    by (auto simp: date_shaped_def)
qed

lemma isValidISODate_JStr: "isValidISODate (JStr s) = Inr (date_shaped s)"
  by (simp add: isValidISODate_def anchored_iso_date_re)

lemma date_errors_strings:
  "date_errors (map JStr ss) =
     Inr (map (\<lambda>s. ''Invalid date: '' @ s) (filter (\<lambda>s. \<not> date_shaped s) ss))"
  by (induction ss) (simp_all add: isValidISODate_JStr)

lemma date_errors_set:
  "date_errors ds = Inr es \<Longrightarrow>
   set es = {''Invalid date: '' @ u | u v. v \<in> set ds \<and> toString v = Inr u \<and> \<not> date_shaped u}"
proof (induction ds arbitrary: es)
  case Nil
  then show ?case by simp
next
  case (Cons d ds)
  from Cons.prems obtain t es' where t: "toString d = Inr t" "date_errors ds = Inr es'"
    "es = (if date_shaped t then [] else [''Invalid date: '' @ t]) @ es'"
    by (auto simp: bind_eq_Inr isValidISODate_def anchored_iso_date_re split: if_splits)
  have "set es = (if date_shaped t then {} else {''Invalid date: '' @ t}) \<union> set es'"
    using t by simp
  also have "\<dots> = {''Invalid date: '' @ u | u v. v \<in> set (d # ds) \<and> toString v = Inr u \<and> \<not> date_shaped u}"
    unfolding Cons.IH [OF t(2)] using t(1) by auto
  finally show ?case .
qed

lemma window_errors_set:
  "window_errors ws = Inr es \<Longrightarrow>
   set es = {''Invalid window: '' @ u | u v. v \<in> set ws \<and> v \<notin> allowedWindows \<and> toString v = Inr u}"
proof (induction ws arbitrary: es)
  case Nil
  then show ?case by simp
next
  case (Cons w ws)
  show ?case
  proof (cases "w \<in> allowedWindows")
    case True
    with Cons.prems obtain es' where "window_errors ws = Inr es'" "es = es'"
      by (auto simp: bind_eq_Inr)
    with Cons.IH [of es'] True show ?thesis by auto
  next
    case False
    with Cons.prems obtain t es' where t: "toString w = Inr t" "window_errors ws = Inr es'"
      "es = (''Invalid window: '' @ t) # es'"
      by (auto simp: bind_eq_Inr)
    have "set es = insert (''Invalid window: '' @ t) (set es')"
      using t by simp
    also have "\<dots> = {''Invalid window: '' @ u | u v. v \<in> set (w # ws) \<and> v \<notin> allowedWindows \<and> toString v = Inr u}"
      unfolding Cons.IH [OF t(2)] using False t(1) by auto
    finally show ?thesis .
  qed
qed

section \<open>What \<open>validateBooking\<close> returns\<close>

lemma validateBooking_Inr:
  assumes "validateBooking b = Inr (errs, c)"
  obtains e3 e4 nm ph em l1 l2 ci st zp nt where
    "each_item date_errors (get_prop (get_prop b ''preferences'') ''dates'') = Inr e3"
    "each_item window_errors (get_prop (get_prop b ''preferences'') ''windows'') = Inr e4"
    "trimmed (get_prop (get_prop b ''customer'') ''name'') = Inr nm"
    "normalizePhone (Some (or_else (get_prop (get_prop b ''customer'') ''phone'') (JStr []))) = Inr ph"
    "trimmed (get_prop (get_prop b ''customer'') ''email'') = Inr em"
    "trimmed (get_prop (get_prop b ''address'') ''line1'') = Inr l1"
    "trimmed (get_prop (get_prop b ''address'') ''line2'') = Inr l2"
    "trimmed (get_prop (get_prop b ''address'') ''city'') = Inr ci"
    "trimmed (get_prop (get_prop b ''address'') ''state'') = Inr st"
    "trimmed (get_prop (get_prop b ''address'') ''zip'') = Inr zp"
    "trimmed (get_prop b ''notes'') = Inr nt"
    "errs = (if no_items (get_prop (get_prop b ''preferences'') ''dates'')
               then [''Select at least 1 preferred day.''] else [])
            @ (if no_items (get_prop (get_prop b ''preferences'') ''windows'')
               then [''Select at least 1 time window.''] else [])
            @ e3 @ e4
            @ required nm ''Name is required.''
            @ required ph ''Phone is required.''
            @ required l1 ''Street address is required.''
            @ required ci ''City is required.''
            @ required zp ''ZIP is required.''"
    "c = \<lparr> preferences = \<lparr> dates = or_else (get_prop (get_prop b ''preferences'') ''dates'') (JArr []),
                             windows = or_else (get_prop (get_prop b ''preferences'') ''windows'') (JArr []) \<rparr>,
           customer = \<lparr> name = nm, phone = ph, email = or_null em \<rparr>,
           address = \<lparr> line1 = l1, line2 = or_null l2, city = ci,
                       state = (if st = [] then ''UT'' else st), zip' = zp \<rparr>,
           notes = or_null nt \<rparr>"
  using assms unfolding validateBooking_def Let_def bind_eq_Inr by blast

lemma invalid_date_in_errors:
  assumes "validateBooking b = Inr (errs, c)"
    and "get_prop (get_prop b ''preferences'') ''dates'' = Some (JArr ds)"
    and "JStr s \<in> set ds"
  shows "(''Invalid date: '' @ s \<in> set errs) = (\<not> date_shaped s)"
proof -
  from assms(1) obtain e3 e4 nm ph l1 ci zp where
    e3: "each_item date_errors (get_prop (get_prop b ''preferences'') ''dates'') = Inr e3" and
    e4: "each_item window_errors (get_prop (get_prop b ''preferences'') ''windows'') = Inr e4" and
    errs: "errs = (if no_items (get_prop (get_prop b ''preferences'') ''dates'')
               then [''Select at least 1 preferred day.''] else [])
            @ (if no_items (get_prop (get_prop b ''preferences'') ''windows'')
               then [''Select at least 1 time window.''] else [])
            @ e3 @ e4
            @ required nm ''Name is required.''
            @ required ph ''Phone is required.''
            @ required l1 ''Street address is required.''
            @ required ci ''City is required.''
            @ required zp ''ZIP is required.''"
    by (rule validateBooking_Inr)
  from e3 assms(2) have "date_errors ds = Inr e3" by simp
  then have in3: "(''Invalid date: '' @ s \<in> set e3) = (\<not> date_shaped s)"
    using assms(3) by (auto simp: date_errors_set)
  have "''Invalid date: '' @ s \<notin> set e4"
  proof (cases "get_prop (get_prop b ''preferences'') ''windows''")
    case None
    with e4 show ?thesis by auto
  next
    case (Some w)
    with e4 show ?thesis
      by (cases w) (auto simp: window_errors_set)
  qed
  with in3 show ?thesis
    unfolding errs by (simp add: required_def)
qed

text \<open>
  Claim C4. \<open>isValidISODate\<close> accepts a string exactly when it has the shape
  \<^verbatim>\<open>YYYY-MM-DD\<close>; no calendar is consulted, so \<^verbatim>\<open>2024-02-31\<close> passes; the loop over a
  sequence of strings pushes one message for each string that has not the shape, naming
  it; and in the list that \<open>validateBooking\<close> returns, the message naming a string of the
  submitted dates is present exactly when the string has not the shape.
\<close>

theorem iso_date_validation:
  "isValidISODate (JStr s) = Inr (date_shaped s)
   \<and> isValidISODate (JStr ''2024-02-31'') = Inr True
   \<and> date_errors (map JStr ss) =
       Inr (map (\<lambda>s. ''Invalid date: '' @ s) (filter (\<lambda>s. \<not> date_shaped s) ss))
   \<and> (validateBooking b = Inr (errs, c)
        \<longrightarrow> get_prop (get_prop b ''preferences'') ''dates'' = Some (JArr ds)
        \<longrightarrow> JStr s \<in> set ds
        \<longrightarrow> (''Invalid date: '' @ s \<in> set errs) = (\<not> date_shaped s))"
proof (intro conjI impI)
  show "isValidISODate (JStr s) = Inr (date_shaped s)"
    by (rule isValidISODate_JStr)
  show "isValidISODate (JStr ''2024-02-31'') = Inr True"
    by (simp add: isValidISODate_JStr date_shaped_def is_digit_def)
  show "date_errors (map JStr ss) =
       Inr (map (\<lambda>s. ''Invalid date: '' @ s) (filter (\<lambda>s. \<not> date_shaped s) ss))"
    by (rule date_errors_strings)
next
  assume "validateBooking b = Inr (errs, c)"
    and "get_prop (get_prop b ''preferences'') ''dates'' = Some (JArr ds)"
    and "JStr s \<in> set ds"
  then show "(''Invalid date: '' @ s \<in> set errs) = (\<not> date_shaped s)"
    by (rule invalid_date_in_errors)
qed


lemma validateBooking_submission:
  "validateBooking (Some (submission [JStr ''2024-02-31'', JStr ''03/01/2025''] [JStr ''morning''])) =
     Inr ([''Invalid date: 03/01/2025''],
          submitted (JArr [JStr ''2024-02-31'', JStr ''03/01/2025'']) (JArr [JStr ''morning'']) ''UT'')"
  by (simp add: validateBooking_def submission_def submitted_def isValidISODate_JStr
      date_shaped_def is_digit_def allowedWindows_def trimmed_def trim_def is_space_def
      normalizePhone_def required_def or_null_def)

theorem iso_date_validation_witness:
  "validateBooking (Some (submission [JStr ''2024-02-31'', JStr ''03/01/2025''] [JStr ''morning''])) =
     Inr ([''Invalid date: 03/01/2025''],
          submitted (JArr [JStr ''2024-02-31'', JStr ''03/01/2025'']) (JArr [JStr ''morning'']) ''UT'')
   \<and> get_prop (get_prop (Some (submission [JStr ''2024-02-31'', JStr ''03/01/2025''] [JStr ''morning'']))
         ''preferences'') ''dates'' = Some (JArr [JStr ''2024-02-31'', JStr ''03/01/2025''])
   \<and> JStr ''03/01/2025'' \<in> set [JStr ''2024-02-31'', JStr ''03/01/2025'']
   \<and> ''Invalid date: 03/01/2025'' \<in> set [''Invalid date: 03/01/2025'']
   \<and> \<not> date_shaped ''03/01/2025''"
proof -
  have d: "get_prop (get_prop (Some (submission [JStr ''2024-02-31'', JStr ''03/01/2025''] [JStr ''morning'']))
         ''preferences'') ''dates'' = Some (JArr [JStr ''2024-02-31'', JStr ''03/01/2025''])"
    by (simp add: submission_def)
  have m: "JStr ''03/01/2025'' \<in> set [JStr ''2024-02-31'', JStr ''03/01/2025'']"
    by simp
  from iso_date_validation
    [where b = "Some (submission [JStr ''2024-02-31'', JStr ''03/01/2025''] [JStr ''morning''])"
       and errs = "[''Invalid date: 03/01/2025'']"
       and c = "submitted (JArr [JStr ''2024-02-31'', JStr ''03/01/2025'']) (JArr [JStr ''morning'']) ''UT''"
       and ds = "[JStr ''2024-02-31'', JStr ''03/01/2025'']" and s = "''03/01/2025''"]
    validateBooking_submission d m
  show ?thesis by simp
qed

section \<open>All violations are collected\<close>

lemma date_messages:
  "each_item date_errors v = Inr es \<Longrightarrow> m \<in> set es \<Longrightarrow> \<exists>u. m = ''Invalid date: '' @ u"
proof (cases v)
  case None
  then show "each_item date_errors v = Inr es \<Longrightarrow> m \<in> set es \<Longrightarrow> ?thesis" by simp
next
  case (Some x)
  then show "each_item date_errors v = Inr es \<Longrightarrow> m \<in> set es \<Longrightarrow> ?thesis"
    by (cases x) (auto simp: date_errors_set)
qed

lemma window_messages:
  "each_item window_errors v = Inr es \<Longrightarrow> m \<in> set es \<Longrightarrow> \<exists>u. m = ''Invalid window: '' @ u"
proof (cases v)
  case None
  then show "each_item window_errors v = Inr es \<Longrightarrow> m \<in> set es \<Longrightarrow> ?thesis" by simp
next
  case (Some x)
  then show "each_item window_errors v = Inr es \<Longrightarrow> m \<in> set es \<Longrightarrow> ?thesis"
    by (cases x) (auto simp: window_errors_set)
qed

text \<open>
  When \<open>validateBooking\<close> returns, its list has the message of a rule exactly when the rule
  is violated, whatever the other rules find.
\<close>

lemma validateBooking_collects:
  assumes "validateBooking b = Inr (errs, c)"
  shows "(''Select at least 1 preferred day.'' \<in> set errs)
           = no_items (get_prop (get_prop b ''preferences'') ''dates'')"
    and "(''Select at least 1 time window.'' \<in> set errs)
           = no_items (get_prop (get_prop b ''preferences'') ''windows'')"
    and "(''Name is required.'' \<in> set errs) = (name (customer c) = [])"
    and "(''Phone is required.'' \<in> set errs) = (phone (customer c) = [])"
    and "(''Street address is required.'' \<in> set errs) = (line1 (address c) = [])"
    and "(''City is required.'' \<in> set errs) = (city (address c) = [])"
    and "(''ZIP is required.'' \<in> set errs) = (zip' (address c) = [])"
proof -
  from assms obtain e3 e4 nm ph em l1 l2 ci st zp nt where
    e3: "each_item date_errors (get_prop (get_prop b ''preferences'') ''dates'') = Inr e3" and
    e4: "each_item window_errors (get_prop (get_prop b ''preferences'') ''windows'') = Inr e4" and
    errs: "errs = (if no_items (get_prop (get_prop b ''preferences'') ''dates'')
               then [''Select at least 1 preferred day.''] else [])
            @ (if no_items (get_prop (get_prop b ''preferences'') ''windows'')
               then [''Select at least 1 time window.''] else [])
            @ e3 @ e4
            @ required nm ''Name is required.''
            @ required ph ''Phone is required.''
            @ required l1 ''Street address is required.''
            @ required ci ''City is required.''
            @ required zp ''ZIP is required.''" and
    c: "c = \<lparr> preferences = \<lparr> dates = or_else (get_prop (get_prop b ''preferences'') ''dates'') (JArr []),
                             windows = or_else (get_prop (get_prop b ''preferences'') ''windows'') (JArr []) \<rparr>,
           customer = \<lparr> name = nm, phone = ph, email = or_null em \<rparr>,
           address = \<lparr> line1 = l1, line2 = or_null l2, city = ci,
                       state = (if st = [] then ''UT'' else st), zip' = zp \<rparr>,
           notes = or_null nt \<rparr>"
    by (rule validateBooking_Inr)
  have no3: "\<And>m. m \<in> set e3 \<Longrightarrow> \<exists>u. m = ''Invalid date: '' @ u"
    using e3 by (rule date_messages)
  have no4: "\<And>m. m \<in> set e4 \<Longrightarrow> \<exists>u. m = ''Invalid window: '' @ u"
    using e4 by (rule window_messages)
  show "(''Select at least 1 preferred day.'' \<in> set errs)
           = no_items (get_prop (get_prop b ''preferences'') ''dates'')"
    unfolding errs using no3 no4 by (auto simp: required_def)
  show "(''Select at least 1 time window.'' \<in> set errs)
           = no_items (get_prop (get_prop b ''preferences'') ''windows'')"
    unfolding errs using no3 no4 by (auto simp: required_def)
  show "(''Name is required.'' \<in> set errs) = (name (customer c) = [])"
    unfolding errs c using no3 no4 by (auto simp: required_def)
  show "(''Phone is required.'' \<in> set errs) = (phone (customer c) = [])"
    unfolding errs c using no3 no4 by (auto simp: required_def)
  show "(''Street address is required.'' \<in> set errs) = (line1 (address c) = [])"
    unfolding errs c using no3 no4 by (auto simp: required_def)
  show "(''City is required.'' \<in> set errs) = (city (address c) = [])"
    unfolding errs c using no3 no4 by (auto simp: required_def)
  show "(''ZIP is required.'' \<in> set errs) = (zip' (address c) = [])"
    unfolding errs c using no3 no4 by (auto simp: required_def)
qed

lemma validateBooking_example:
  "validateBooking (Some (JObj
     [(''preferences'', JObj [(''dates'', JArr []), (''windows'', JArr [JStr ''noon''])]),
      (''customer'', JObj [(''name'', JStr ''  ''), (''phone'', JStr ''n/a'')]),
      (''address'', JObj [(''line1'', JStr ''1 Main St''), (''city'', JStr ''Provo''),
                          (''zip'', JStr ''84601'')])])) =
   Inr ([''Select at least 1 preferred day.'', ''Invalid window: noon'', ''Name is required.'',
         ''Phone is required.''],
        \<lparr> preferences = \<lparr> dates = JArr [], windows = JArr [JStr ''noon''] \<rparr>,
          customer = \<lparr> name = [], phone = [], email = None \<rparr>,
          address = \<lparr> line1 = ''1 Main St'', line2 = None, city = ''Provo'', state = ''UT'',
                      zip' = ''84601'' \<rparr>,
          notes = None \<rparr>)"
  by (simp add: validateBooking_def allowedWindows_def trimmed_def trim_def is_space_def
      normalizePhone_def is_digit_def required_def or_null_def)

lemma trimmed_Inl:
  "(trimmed v = Inl e) = (\<exists>x. v = Some x \<and> truthy x \<and> (\<forall>s. x \<noteq> JStr s) \<and> e = TypeError)"
proof (cases v)
  case None
  then show ?thesis by (simp add: trimmed_def)
next
  case (Some x)
  then show ?thesis by (cases x) (auto simp: trimmed_def)
qed

text \<open>
  Claim C3. The validator does not return a list for every input object. A field
  \<^verbatim>\<open>customer.name\<close> that holds a number is truthy and has no method \<^verbatim>\<open>trim\<close>: the call
  throws a TypeError, and the violations that the input has (an empty date sequence, a
  window outside the set, a phone without a digit) are not reported.
\<close>

theorem validateBooking_throws:
  "validateBooking (Some (JObj
     [(''preferences'', JObj [(''dates'', JArr []), (''windows'', JArr [JStr ''noon''])]),
      (''customer'', JObj [(''name'', JNum 5), (''phone'', JStr ''n/a'')]),
      (''address'', JObj [(''line1'', JStr ''1 Main St''), (''city'', JStr ''Provo''),
                          (''zip'', JStr ''84601'')])])) = Inl TypeError"
  by (simp add: validateBooking_def allowedWindows_def trimmed_def)

section \<open>The state of the address\<close>

lemma blank_trimmed: "blank v \<Longrightarrow> trimmed v = Inr []"
  by (auto simp: blank_def trimmed_def trim_def split: option.splits json.splits)

lemma validate_Inr:
  assumes "validate b = Inr (errs, c)"
  obtains e3 e4 nm ph em l1 l2 ci st zp nt where
    "each_item date_errors (get_prop (get_prop b ''preferences'') ''dates'') = Inr e3"
    "each_item window_errors (get_prop (get_prop b ''preferences'') ''windows'') = Inr e4"
    "trimmed (get_prop (get_prop b ''customer'') ''name'') = Inr nm"
    "normalizePhone (Some (or_else (get_prop (get_prop b ''customer'') ''phone'') (JStr []))) = Inr ph"
    "trimmed (get_prop (get_prop b ''customer'') ''email'') = Inr em"
    "trimmed (get_prop (get_prop b ''address'') ''line1'') = Inr l1"
    "trimmed (get_prop (get_prop b ''address'') ''line2'') = Inr l2"
    "trimmed (get_prop (get_prop b ''address'') ''city'') = Inr ci"
    "trimmed (get_prop (get_prop b ''address'') ''state'') = Inr st"
    "trimmed (get_prop (get_prop b ''address'') ''zip'') = Inr zp"
    "trimmed (get_prop b ''notes'') = Inr nt"
    "errs = (if no_items (get_prop (get_prop b ''preferences'') ''dates'')
               then [''Select at least 1 day.''] else [])
            @ (if no_items (get_prop (get_prop b ''preferences'') ''windows'')
               then [''Select at least 1 time window.''] else [])
            @ e3 @ e4
            @ required nm ''Name is required.''
            @ required ph ''Phone is required.''
            @ required l1 ''Street address is required.''
            @ required ci ''City is required.''
            @ required st ''State is required.''
            @ required zp ''ZIP is required.''"
    "c = \<lparr> preferences = \<lparr> dates = get_prop (get_prop b ''preferences'') ''dates'',
                             windows = get_prop (get_prop b ''preferences'') ''windows'' \<rparr>,
           customer = \<lparr> name = nm, phone = ph, email = or_null em \<rparr>,
           address = \<lparr> line1 = l1, line2 = or_null l2, city = ci, state = st, zip' = zp \<rparr>,
           notes = or_null nt \<rparr>"
  using assms unfolding validate_def Let_def bind_eq_Inr by blast

lemma validateBooking_state:
  assumes "validateBooking b = Inr (errs, c)"
    and "blank (get_prop (get_prop b ''address'') ''state'')"
  shows "state (address c) = ''UT''"
    and "''State is required.'' \<notin> set errs"
    and "(errs = []) =
          (\<not> no_items (get_prop (get_prop b ''preferences'') ''dates'')
           \<and> \<not> no_items (get_prop (get_prop b ''preferences'') ''windows'')
           \<and> each_item date_errors (get_prop (get_prop b ''preferences'') ''dates'') = Inr []
           \<and> each_item window_errors (get_prop (get_prop b ''preferences'') ''windows'') = Inr []
           \<and> name (customer c) \<noteq> [] \<and> phone (customer c) \<noteq> []
           \<and> line1 (address c) \<noteq> [] \<and> city (address c) \<noteq> [] \<and> zip' (address c) \<noteq> [])"
proof -
  from assms(1) obtain e3 e4 nm ph em l1 l2 ci st zp nt where
    e3: "each_item date_errors (get_prop (get_prop b ''preferences'') ''dates'') = Inr e3" and
    e4: "each_item window_errors (get_prop (get_prop b ''preferences'') ''windows'') = Inr e4" and
    st: "trimmed (get_prop (get_prop b ''address'') ''state'') = Inr st" and
    errs: "errs = (if no_items (get_prop (get_prop b ''preferences'') ''dates'')
               then [''Select at least 1 preferred day.''] else [])
            @ (if no_items (get_prop (get_prop b ''preferences'') ''windows'')
               then [''Select at least 1 time window.''] else [])
            @ e3 @ e4
            @ required nm ''Name is required.''
            @ required ph ''Phone is required.''
            @ required l1 ''Street address is required.''
            @ required ci ''City is required.''
            @ required zp ''ZIP is required.''" and
    c: "c = \<lparr> preferences = \<lparr> dates = or_else (get_prop (get_prop b ''preferences'') ''dates'') (JArr []),
                             windows = or_else (get_prop (get_prop b ''preferences'') ''windows'') (JArr []) \<rparr>,
           customer = \<lparr> name = nm, phone = ph, email = or_null em \<rparr>,
           address = \<lparr> line1 = l1, line2 = or_null l2, city = ci,
                       state = (if st = [] then ''UT'' else st), zip' = zp \<rparr>,
           notes = or_null nt \<rparr>"
    by (rule validateBooking_Inr)
  from st blank_trimmed [OF assms(2)] have "st = []" by simp
  then show "state (address c) = ''UT''" by (simp add: c)
  have no3: "\<And>m. m \<in> set e3 \<Longrightarrow> \<exists>u. m = ''Invalid date: '' @ u"
    using e3 by (rule date_messages)
  have no4: "\<And>m. m \<in> set e4 \<Longrightarrow> \<exists>u. m = ''Invalid window: '' @ u"
    using e4 by (rule window_messages)
  show "''State is required.'' \<notin> set errs"
    unfolding errs using no3 no4 by (auto simp: required_def)
  show "(errs = []) =
          (\<not> no_items (get_prop (get_prop b ''preferences'') ''dates'')
           \<and> \<not> no_items (get_prop (get_prop b ''preferences'') ''windows'')
           \<and> each_item date_errors (get_prop (get_prop b ''preferences'') ''dates'') = Inr []
           \<and> each_item window_errors (get_prop (get_prop b ''preferences'') ''windows'') = Inr []
           \<and> name (customer c) \<noteq> [] \<and> phone (customer c) \<noteq> []
           \<and> line1 (address c) \<noteq> [] \<and> city (address c) \<noteq> [] \<and> zip' (address c) \<noteq> [])"
    unfolding errs c using e3 e4 by (auto simp: required_def)
qed

lemma validate_state:
  assumes "validate b = Inr (errs, c)"
    and "blank (get_prop (get_prop b ''address'') ''state'')"
  shows "''State is required.'' \<in> set errs" and "state (address c) = []"
proof -
  from assms(1) obtain e3 e4 nm ph em l1 l2 ci st zp nt where
    st: "trimmed (get_prop (get_prop b ''address'') ''state'') = Inr st" and
    errs: "errs = (if no_items (get_prop (get_prop b ''preferences'') ''dates'')
               then [''Select at least 1 day.''] else [])
            @ (if no_items (get_prop (get_prop b ''preferences'') ''windows'')
               then [''Select at least 1 time window.''] else [])
            @ e3 @ e4
            @ required nm ''Name is required.''
            @ required ph ''Phone is required.''
            @ required l1 ''Street address is required.''
            @ required ci ''City is required.''
            @ required st ''State is required.''
            @ required zp ''ZIP is required.''" and
    c: "c = \<lparr> preferences = \<lparr> dates = get_prop (get_prop b ''preferences'') ''dates'',
                             windows = get_prop (get_prop b ''preferences'') ''windows'' \<rparr>,
           customer = \<lparr> name = nm, phone = ph, email = or_null em \<rparr>,
           address = \<lparr> line1 = l1, line2 = or_null l2, city = ci, state = st, zip' = zp \<rparr>,
           notes = or_null nt \<rparr>"
    by (rule validate_Inr)
  from st blank_trimmed [OF assms(2)] have "st = []" by simp
  then show "''State is required.'' \<in> set errs" and "state (address c) = []"
    by (simp_all add: errs c required_def)
qed

lemma validate_submission:
  "validate (Some (submission [JStr ''2025-03-01''] [JStr ''morning''])) =
     Inr ([''State is required.''],
          submitted (Some (JArr [JStr ''2025-03-01''])) (Some (JArr [JStr ''morning''])) [])"
  by (simp add: validate_def submission_def submitted_def isValidISODate_JStr
      date_shaped_def is_digit_def allowedWindows_def trimmed_def trim_def is_space_def
      normalizePhone_def required_def or_null_def)

text \<open>
  Claim C5, as stated, fails on the SQLite server: there the valid submission of the
  specification, which has no state, gets the message \<^verbatim>\<open>State is required.\<close>, and the
  state of its record stays empty.
\<close>

theorem validate_requires_state:
  "validate (Some (submission [JStr ''2025-03-01''] [JStr ''morning''])) =
     Inr ([''State is required.''],
          submitted (Some (JArr [JStr ''2025-03-01''])) (Some (JArr [JStr ''morning''])) [])"
  by (rule validate_submission)

text \<open>
  Claim C5, amended. When the state of the address is absent or trims to the empty string
  and \<open>validateBooking\<close> of \<^verbatim>\<open>server.js\<close> returns, the state of the record is \<^verbatim>\<open>UT\<close>, no
  message about the state is in the list, and the list is empty exactly when the other
  rules are met. The validator of the SQLite server reports \<^verbatim>\<open>State is required.\<close> for
  such a submission and leaves the state empty.
\<close>

theorem state_default:
  "(validateBooking b = Inr (errs, c)
      \<longrightarrow> blank (get_prop (get_prop b ''address'') ''state'')
      \<longrightarrow> state (address c) = ''UT''
          \<and> ''State is required.'' \<notin> set errs
          \<and> (errs = []) =
              (\<not> no_items (get_prop (get_prop b ''preferences'') ''dates'')
               \<and> \<not> no_items (get_prop (get_prop b ''preferences'') ''windows'')
               \<and> each_item date_errors (get_prop (get_prop b ''preferences'') ''dates'') = Inr []
               \<and> each_item window_errors (get_prop (get_prop b ''preferences'') ''windows'') = Inr []
               \<and> name (customer c) \<noteq> [] \<and> phone (customer c) \<noteq> []
               \<and> line1 (address c) \<noteq> [] \<and> city (address c) \<noteq> [] \<and> zip' (address c) \<noteq> []))
   \<and> (validate b = Inr (errs', c')
      \<longrightarrow> blank (get_prop (get_prop b ''address'') ''state'')
      \<longrightarrow> ''State is required.'' \<in> set errs' \<and> state (address c') = [])"
  using validateBooking_state [of b errs c] validate_state [of b errs' c'] by blast

lemma validateBooking_valid:
  "validateBooking (Some (submission [JStr ''2025-03-01''] [JStr ''morning''])) =
     Inr ([], submitted (JArr [JStr ''2025-03-01'']) (JArr [JStr ''morning'']) ''UT'')"
  by (simp add: validateBooking_def submission_def submitted_def isValidISODate_JStr
      date_shaped_def is_digit_def allowedWindows_def trimmed_def trim_def is_space_def
      normalizePhone_def required_def or_null_def)

theorem state_default_witness:
  "blank (get_prop (get_prop (Some (submission [JStr ''2025-03-01''] [JStr ''morning''])) ''address'') ''state'')
   \<and> validateBooking (Some (submission [JStr ''2025-03-01''] [JStr ''morning''])) =
       Inr ([], submitted (JArr [JStr ''2025-03-01'']) (JArr [JStr ''morning'']) ''UT'')
   \<and> state (address (submitted (JArr [JStr ''2025-03-01'']) (JArr [JStr ''morning'']) ''UT'')) = ''UT''
   \<and> validate (Some (submission [JStr ''2025-03-01''] [JStr ''morning''])) =
       Inr ([''State is required.''],
            submitted (Some (JArr [JStr ''2025-03-01''])) (Some (JArr [JStr ''morning''])) [])"
proof -
  have bl: "blank (get_prop (get_prop (Some (submission [JStr ''2025-03-01''] [JStr ''morning''])) ''address'') ''state'')"
    by (simp add: submission_def blank_def)
  from state_default
    [where b = "Some (submission [JStr ''2025-03-01''] [JStr ''morning''])"
       and errs = "[]" and c = "submitted (JArr [JStr ''2025-03-01'']) (JArr [JStr ''morning'']) ''UT''"
       and errs' = "[''State is required.'']"
       and c' = "submitted (Some (JArr [JStr ''2025-03-01''])) (Some (JArr [JStr ''morning''])) []"]
    bl validateBooking_valid validate_submission
  show ?thesis by simp
qed

lemma trimmed_returns: "(\<exists>s. trimmed v = Inr s) = textual v"
  by (cases "or_else v (JStr [])") (auto simp: trimmed_def textual_def)

lemma printable_iff: "(\<exists>s. toString v = Inr s) = printable v"
  by (cases "toString v") (auto simp: printable_def)

lemma date_errors_returns: "(\<exists>es. date_errors ds = Inr es) = list_all printable ds"
proof (induction ds)
  case Nil
  then show ?case by simp
next
  case (Cons d ds)
  show ?case
  proof (cases "toString d")
    case (Inl e)
    then show ?thesis
      by (simp add: isValidISODate_def printable_def)
  next
    case (Inr t)
    with Cons.IH show ?thesis
      by (auto simp: isValidISODate_def printable_def bind_eq_Inr)
  qed
qed

lemma window_errors_returns:
  "(\<exists>es. window_errors ws = Inr es) = list_all (\<lambda>w. w \<in> allowedWindows \<or> printable w) ws"
proof (induction ws)
  case Nil
  then show ?case by simp
next
  case (Cons w ws)
  show ?case
  proof (cases "w \<in> allowedWindows")
    case True
    with Cons.IH show ?thesis
      by (auto simp: bind_eq_Inr)
  next
    case False
    show ?thesis
    proof (cases "toString w")
      case (Inl e)
      with False show ?thesis
        by (simp add: printable_def)
    next
      case (Inr t)
      with False Cons.IH show ?thesis
        by (auto simp: printable_def bind_eq_Inr)
    qed
  qed
qed

lemma each_item_dates_returns:
  "(\<exists>es. each_item date_errors v = Inr es) =
     (case v of Some (JArr ds) \<Rightarrow> list_all printable ds | _ \<Rightarrow> True)"
proof (cases v)
  case None
  then show ?thesis by simp
next
  case (Some x)
  then show ?thesis
    by (cases x) (simp_all add: date_errors_returns)
qed

lemma each_item_windows_returns:
  "(\<exists>es. each_item window_errors v = Inr es) =
     (case v of Some (JArr ws) \<Rightarrow> list_all (\<lambda>w. w \<in> allowedWindows \<or> printable w) ws | _ \<Rightarrow> True)"
proof (cases v)
  case None
  then show ?thesis by simp
next
  case (Some x)
  then show ?thesis
    by (cases x) (simp_all add: window_errors_returns)
qed

lemma or_else_again: "or_else (Some (or_else v d)) d = or_else v d"
  by (cases v) auto

lemma normalizePhone_returns: "(\<exists>s. normalizePhone (Some v) = Inr s) = printable (or_else (Some v) (JStr []))"
  by (cases "toString (or_else (Some v) (JStr []))") (auto simp: normalizePhone_def printable_def)

text \<open>
  \<open>validateBooking\<close> returns a list and a record exactly on the inputs that \<open>completes\<close>
  describes; on every other input it throws.
\<close>

lemma validateBooking_returns: "(\<exists>r. validateBooking b = Inr r) = completes b"
proof
  assume "\<exists>r. validateBooking b = Inr r"
  then obtain errs c where "validateBooking b = Inr (errs, c)"
    by auto
  then obtain e3 e4 nm ph em l1 l2 ci st zp nt where
    "each_item date_errors (get_prop (get_prop b ''preferences'') ''dates'') = Inr e3"
    "each_item window_errors (get_prop (get_prop b ''preferences'') ''windows'') = Inr e4"
    "trimmed (get_prop (get_prop b ''customer'') ''name'') = Inr nm"
    "normalizePhone (Some (or_else (get_prop (get_prop b ''customer'') ''phone'') (JStr []))) = Inr ph"
    "trimmed (get_prop (get_prop b ''customer'') ''email'') = Inr em"
    "trimmed (get_prop (get_prop b ''address'') ''line1'') = Inr l1"
    "trimmed (get_prop (get_prop b ''address'') ''line2'') = Inr l2"
    "trimmed (get_prop (get_prop b ''address'') ''city'') = Inr ci"
    "trimmed (get_prop (get_prop b ''address'') ''state'') = Inr st"
    "trimmed (get_prop (get_prop b ''address'') ''zip'') = Inr zp"
    "trimmed (get_prop b ''notes'') = Inr nt"
    by (rule validateBooking_Inr)
  then have "\<exists>es. each_item date_errors (get_prop (get_prop b ''preferences'') ''dates'') = Inr es"
    "\<exists>es. each_item window_errors (get_prop (get_prop b ''preferences'') ''windows'') = Inr es"
    "\<exists>s. normalizePhone (Some (or_else (get_prop (get_prop b ''customer'') ''phone'') (JStr []))) = Inr s"
    "\<exists>s. trimmed (get_prop (get_prop b ''customer'') ''name'') = Inr s"
    "\<exists>s. trimmed (get_prop (get_prop b ''customer'') ''email'') = Inr s"
    "\<exists>s. trimmed (get_prop (get_prop b ''address'') ''line1'') = Inr s"
    "\<exists>s. trimmed (get_prop (get_prop b ''address'') ''line2'') = Inr s"
    "\<exists>s. trimmed (get_prop (get_prop b ''address'') ''city'') = Inr s"
    "\<exists>s. trimmed (get_prop (get_prop b ''address'') ''state'') = Inr s"
    "\<exists>s. trimmed (get_prop (get_prop b ''address'') ''zip'') = Inr s"
    "\<exists>s. trimmed (get_prop b ''notes'') = Inr s"
    by blast+
  then show "completes b"
    unfolding completes_def each_item_dates_returns each_item_windows_returns
      normalizePhone_returns trimmed_returns or_else_again
    by blast
next
  assume c: "completes b"
  from c obtain e3 where e3: "each_item date_errors (get_prop (get_prop b ''preferences'') ''dates'') = Inr e3"
    unfolding completes_def each_item_dates_returns [symmetric] by blast
  from c obtain e4 where e4: "each_item window_errors (get_prop (get_prop b ''preferences'') ''windows'') = Inr e4"
    unfolding completes_def each_item_windows_returns [symmetric] by blast
  from c have "printable (or_else (get_prop (get_prop b ''customer'') ''phone'') (JStr []))"
    unfolding completes_def by blast
  then have "printable (or_else (Some (or_else (get_prop (get_prop b ''customer'') ''phone'') (JStr []))) (JStr []))"
    by (simp only: or_else_again)
  then obtain ph where ph: "normalizePhone (Some (or_else (get_prop (get_prop b ''customer'') ''phone'') (JStr []))) = Inr ph"
    unfolding normalizePhone_returns [symmetric] by blast
  from c obtain nm em l1 l2 ci st zp nt where t:
    "trimmed (get_prop (get_prop b ''customer'') ''name'') = Inr nm"
    "trimmed (get_prop (get_prop b ''customer'') ''email'') = Inr em"
    "trimmed (get_prop (get_prop b ''address'') ''line1'') = Inr l1"
    "trimmed (get_prop (get_prop b ''address'') ''line2'') = Inr l2"
    "trimmed (get_prop (get_prop b ''address'') ''city'') = Inr ci"
    "trimmed (get_prop (get_prop b ''address'') ''state'') = Inr st"
    "trimmed (get_prop (get_prop b ''address'') ''zip'') = Inr zp"
    "trimmed (get_prop b ''notes'') = Inr nt"
    unfolding completes_def trimmed_returns [symmetric] by blast
  show "\<exists>r. validateBooking b = Inr r"
    by (simp add: validateBooking_def Let_def e3 e4 ph t)
qed

section \<open>The guard of the admin routes\<close>

lemma requireAdmin_refuses:
  "\<not> authorized e req \<Longrightarrow> requireAdmin e req next st = Inr (Response 401 (Error ''Unauthorized''), st)"
  by (auto simp: requireAdmin_def authorized_def split: option.splits)

lemma requireAdmin_passes: "authorized e req \<Longrightarrow> requireAdmin e req next st = next st"
  by (auto simp: requireAdmin_def authorized_def split: option.splits)

text \<open>
  In \<^verbatim>\<open>server.js\<close> both admin routes answer 401 and leave the store alone for a caller who is
  not authorized, whatever the handler would do, and run the handler otherwise.
\<close>

lemma server_routes_guarded:
  "\<not> authorized e req \<Longrightarrow>
     get_admin_requests e req st = Inr (Response 401 (Error ''Unauthorized''), st)
     \<and> patch_admin_requests e req st = Inr (Response 401 (Error ''Unauthorized''), st)"
  "authorized e req \<Longrightarrow>
     get_admin_requests e req st = admin_list req st
     \<and> patch_admin_requests e req st = admin_update req st"
  by (simp_all add: get_admin_requests_def patch_admin_requests_def requireAdmin_refuses
      requireAdmin_passes)

lemma plain_quote: "list_all plain_char s \<Longrightarrow> quote s = CHR 0x22 # s @ [CHR 0x22]"
  by (induction s) (auto simp: quote_def escape_char_def plain_char_def)

lemma list_shop:
  "list_requests anonymous shop =
     Inr (Response 200
            (OkRequests [lite_row.extend stored_row
               (listed_row.fields (JArr [JStr ''2025-03-01'']) (JArr [JStr ''morning'']))]),
          shop)"
  by (simp add: list_requests_def anonymous_def shop_def stored_row_def select_by_status_def
      list_entry_def JSON_parse_def skip_ws_def json_ws_def quote_def escape_char_def
      trim_def is_space_def)

text \<open>
  Claim C1. The listing of the SQLite server is not behind the guard: a caller without
  the header \<^verbatim>\<open>x-admin-key\<close> gets status 200 and the stored request.
\<close>

theorem list_requests_unguarded:
  "list_requests anonymous shop =
     Inr (Response 200
            (OkRequests [lite_row.extend stored_row
               (listed_row.fields (JArr [JStr ''2025-03-01'']) (JArr [JStr ''morning'']))]),
          shop)"
  by (rule list_shop)

section \<open>The status update\<close>

lemma update_status_no_match: "\<forall>r\<in>set rs. id' r \<noteq> k \<Longrightarrow> update_status s k rs = rs"
  by (induction rs) (auto simp: update_status_def)

lemma rowCount_zero: "(rowCount k rs = 0) = (\<forall>r\<in>set rs. id' r \<noteq> k)"
  by (auto simp: rowCount_def filter_empty_conv)

lemma admin_update_cases:
  assumes "toString (or_else (get_prop (body req) ''status'') (JStr [])) = Inr s"
  shows "admin_update req st =
     (if trim s \<notin> allowed
      then Inr (Response 400 (Error ''Invalid status. Use: requested | scheduled | cancelled''), st)
      else case fault st of
        Some m \<Rightarrow> Inr (Response 500 (Error (message_or m ''Database update failed'')), st)
      | None \<Rightarrow>
         (case key_of st (param_id req) of
            Inl m \<Rightarrow> Inr (Response 500 (Error (message_or m ''Database update failed'')), st)
          | Inr k \<Rightarrow>
              if \<forall>r\<in>set (rows st). id' r \<noteq> k then Inr (Response 404 (Error ''Not found''), st)
              else Inr (Response 200 Ok, st\<lparr>rows := update_status (trim s) k (rows st)\<rparr>)))"
  using assms
  by (auto simp: admin_update_def update_query_def rowCount_zero update_status_no_match
      split: option.splits sum.splits)

lemma update_status_nth:
  "i < length rs \<Longrightarrow>
     update_status s k rs ! i = (if id' (rs ! i) = k then (rs ! i)\<lparr>status := s\<rparr> else rs ! i)"
  by (simp add: update_status_def)

lemma length_update_status: "length (update_status s k rs) = length rs"
  by (simp add: update_status_def)

lemma update_status_hits:
  "r \<in> set rs \<Longrightarrow> id' r = k \<Longrightarrow> r\<lparr>status := s\<rparr> \<in> set (update_status s k rs)"
  by (auto simp: update_status_def image_iff intro: bexI [of _ r])

lemma desk_rejected_id:
  "patch_admin_requests office (admin_request None ''abc'' (Some (JObj [(''status'', JStr ''scheduled'')]))) desk =
     Inr (Response 500 (Error ''invalid input syntax for type integer''), desk)"
  by (simp add: patch_admin_requests_def requireAdmin_def office_def admin_request_def
      admin_update_def Let_def allowed_def trim_def is_space_def update_query_def desk_def
      read_key_def message_or_def)

lemma desk_unprintable_status:
  "patch_admin_requests office
     (admin_request None ''7'' (Some (JObj [(''status'', JObj [(''toString'', JNum 1)])]))) desk =
     Inl TypeError"
  by (simp add: patch_admin_requests_def requireAdmin_def office_def admin_request_def
      admin_update_def Let_def)

text \<open>
  Claim C2, as stated, fails on two calls of an authorized caller. The ids of the two
  stored requests are 7 and 8, and \<^verbatim>\<open>scheduled\<close> is an allowed status: for the id
  \<^verbatim>\<open>abc\<close>, which is the id of no record, the store rejects the statement and the handler
  answers 500 through its \<^verbatim>\<open>catch\<close>, not 404. And a status that is an object with an own
  property \<^verbatim>\<open>toString\<close> is none of the three values, yet \<^verbatim>\<open>String\<close> throws before the
  \<^verbatim>\<open>try\<close>: the handler answers nothing, not 400.
\<close>

theorem admin_update_not_found_or_invalid:
  "map id' (rows desk) = [7, 8]
   \<and> ''scheduled'' \<in> allowed
   \<and> patch_admin_requests office
        (admin_request None ''abc'' (Some (JObj [(''status'', JStr ''scheduled'')]))) desk =
       Inr (Response 500 (Error ''invalid input syntax for type integer''), desk)
   \<and> patch_admin_requests office
        (admin_request None ''7'' (Some (JObj [(''status'', JObj [(''toString'', JNum 1)])]))) desk =
       Inl TypeError"
  using desk_rejected_id desk_unprintable_status
  by (simp add: desk_def request_row_def allowed_def)

text \<open>
  Claim C2, amended. For an authorized call of the status update whose status value
  coerces to the string \<open>s\<close>, the answer is decided as follows, and these are all the cases.
  When the trimmed \<open>s\<close> is not one of the three allowed values: 400, the store as before.
  When it is allowed and the store rejects the statement, or rejects the text of the id as
  a key: 500, the store as before. When it is allowed, the store reads the id as the key
  \<open>k\<close> and no row has the key: 404, the store as before. When a row has the key: 200, and
  the store has the same number of rows, each row with the key in its place with the
  trimmed \<open>s\<close> as its status and nothing else changed, each other row as it was, and the
  rest of the store as it was. And whenever the call leaves a store other than the one it
  found, the status was allowed, the store executed the statement, a row had the key, and
  the answer is 200.
\<close>

theorem admin_update_status:
  "authorized e req
   \<longrightarrow> toString (or_else (get_prop (body req) ''status'') (JStr [])) = Inr s
   \<longrightarrow> (trim s \<notin> allowed
          \<longrightarrow> patch_admin_requests e req st =
              Inr (Response 400 (Error ''Invalid status. Use: requested | scheduled | cancelled''), st))
       \<and> (trim s \<in> allowed \<longrightarrow> fault st = Some m
          \<longrightarrow> patch_admin_requests e req st =
              Inr (Response 500 (Error (message_or m ''Database update failed'')), st))
       \<and> (trim s \<in> allowed \<longrightarrow> fault st = None \<longrightarrow> key_of st (param_id req) = Inl m
          \<longrightarrow> patch_admin_requests e req st =
              Inr (Response 500 (Error (message_or m ''Database update failed'')), st))
       \<and> (trim s \<in> allowed \<longrightarrow> fault st = None \<longrightarrow> key_of st (param_id req) = Inr k
          \<longrightarrow> (\<forall>r\<in>set (rows st). id' r \<noteq> k)
          \<longrightarrow> patch_admin_requests e req st = Inr (Response 404 (Error ''Not found''), st))
       \<and> (trim s \<in> allowed \<longrightarrow> fault st = None \<longrightarrow> key_of st (param_id req) = Inr k
          \<longrightarrow> (\<exists>r\<in>set (rows st). id' r = k)
          \<longrightarrow> (\<exists>st'. patch_admin_requests e req st = Inr (Response 200 Ok, st')
                \<and> length (rows st') = length (rows st)
                \<and> (\<forall>i<length (rows st).
                      rows st' ! i =
                        (if id' (rows st ! i) = k then (rows st ! i)\<lparr>status := trim s\<rparr>
                         else rows st ! i))
                \<and> (\<exists>r'\<in>set (rows st'). id' r' = k \<and> status r' = trim s)
                \<and> fault st' = fault st \<and> key_of st' = key_of st
                \<and> next_id st' = next_id st \<and> clock st' = clock st))
       \<and> (\<forall>resp st'. patch_admin_requests e req st = Inr (resp, st') \<longrightarrow> st' \<noteq> st
          \<longrightarrow> trim s \<in> allowed \<and> resp = Response 200 Ok \<and> fault st = None
              \<and> (\<exists>k. key_of st (param_id req) = Inr k \<and> (\<exists>r\<in>set (rows st). id' r = k)))"
proof (intro impI)
  assume a: "authorized e req"
    and s: "toString (or_else (get_prop (body req) ''status'') (JStr [])) = Inr s"
  have p: "patch_admin_requests e req st = admin_update req st"
    using a by (simp add: server_routes_guarded)
  note u = p admin_update_cases [OF s]
  have c400: "trim s \<notin> allowed
          \<longrightarrow> patch_admin_requests e req st =
              Inr (Response 400 (Error ''Invalid status. Use: requested | scheduled | cancelled''), st)"
    unfolding u by simp
  have c500: "trim s \<in> allowed \<longrightarrow> fault st = Some m
          \<longrightarrow> patch_admin_requests e req st =
              Inr (Response 500 (Error (message_or m ''Database update failed'')), st)"
    unfolding u by simp
  have c500': "trim s \<in> allowed \<longrightarrow> fault st = None \<longrightarrow> key_of st (param_id req) = Inl m
          \<longrightarrow> patch_admin_requests e req st =
              Inr (Response 500 (Error (message_or m ''Database update failed'')), st)"
    unfolding u by simp
  have c404: "trim s \<in> allowed \<longrightarrow> fault st = None \<longrightarrow> key_of st (param_id req) = Inr k
          \<longrightarrow> (\<forall>r\<in>set (rows st). id' r \<noteq> k)
          \<longrightarrow> patch_admin_requests e req st = Inr (Response 404 (Error ''Not found''), st)"
    unfolding u by simp
  have c200: "trim s \<in> allowed \<longrightarrow> fault st = None \<longrightarrow> key_of st (param_id req) = Inr k
          \<longrightarrow> (\<exists>r\<in>set (rows st). id' r = k)
          \<longrightarrow> (\<exists>st'. patch_admin_requests e req st = Inr (Response 200 Ok, st')
                \<and> length (rows st') = length (rows st)
                \<and> (\<forall>i<length (rows st).
                      rows st' ! i =
                        (if id' (rows st ! i) = k then (rows st ! i)\<lparr>status := trim s\<rparr>
                         else rows st ! i))
                \<and> (\<exists>r'\<in>set (rows st'). id' r' = k \<and> status r' = trim s)
                \<and> fault st' = fault st \<and> key_of st' = key_of st
                \<and> next_id st' = next_id st \<and> clock st' = clock st)"
  proof (intro impI)
    assume al: "trim s \<in> allowed" and f: "fault st = None"
      and k: "key_of st (param_id req) = Inr k" and ex: "\<exists>r\<in>set (rows st). id' r = k"
    from ex obtain r where r: "r \<in> set (rows st)" "id' r = k"
      by blast
    let ?st' = "st\<lparr>rows := update_status (trim s) k (rows st)\<rparr>"
    have "patch_admin_requests e req st = Inr (Response 200 Ok, ?st')"
      unfolding u using al f k ex by simp
    moreover have "length (rows ?st') = length (rows st)"
      by (simp add: length_update_status)
    moreover have "\<forall>i<length (rows st).
        rows ?st' ! i =
          (if id' (rows st ! i) = k then (rows st ! i)\<lparr>status := trim s\<rparr> else rows st ! i)"
      by (simp add: update_status_nth)
    moreover have "\<exists>r'\<in>set (rows ?st'). id' r' = k \<and> status r' = trim s"
      using update_status_hits [OF r, of "trim s"] r(2)
      by (intro bexI [of _ "r\<lparr>status := trim s\<rparr>"]) simp_all
    moreover have "fault ?st' = fault st \<and> key_of ?st' = key_of st
        \<and> next_id ?st' = next_id st \<and> clock ?st' = clock st"
      by simp
    ultimately show "\<exists>st'. patch_admin_requests e req st = Inr (Response 200 Ok, st')
                \<and> length (rows st') = length (rows st)
                \<and> (\<forall>i<length (rows st).
                      rows st' ! i =
                        (if id' (rows st ! i) = k then (rows st ! i)\<lparr>status := trim s\<rparr>
                         else rows st ! i))
                \<and> (\<exists>r'\<in>set (rows st'). id' r' = k \<and> status r' = trim s)
                \<and> fault st' = fault st \<and> key_of st' = key_of st
                \<and> next_id st' = next_id st \<and> clock st' = clock st"
      by (intro exI [of _ ?st']) blast
  qed
  have only: "\<forall>resp st'. patch_admin_requests e req st = Inr (resp, st') \<longrightarrow> st' \<noteq> st
          \<longrightarrow> trim s \<in> allowed \<and> resp = Response 200 Ok \<and> fault st = None
              \<and> (\<exists>k. key_of st (param_id req) = Inr k \<and> (\<exists>r\<in>set (rows st). id' r = k))"
    unfolding u by (auto split: option.splits sum.splits if_splits)
  from c400 c500 c500' c404 c200 only
  show "(trim s \<notin> allowed
          \<longrightarrow> patch_admin_requests e req st =
              Inr (Response 400 (Error ''Invalid status. Use: requested | scheduled | cancelled''), st))
       \<and> (trim s \<in> allowed \<longrightarrow> fault st = Some m
          \<longrightarrow> patch_admin_requests e req st =
              Inr (Response 500 (Error (message_or m ''Database update failed'')), st))
       \<and> (trim s \<in> allowed \<longrightarrow> fault st = None \<longrightarrow> key_of st (param_id req) = Inl m
          \<longrightarrow> patch_admin_requests e req st =
              Inr (Response 500 (Error (message_or m ''Database update failed'')), st))
       \<and> (trim s \<in> allowed \<longrightarrow> fault st = None \<longrightarrow> key_of st (param_id req) = Inr k
          \<longrightarrow> (\<forall>r\<in>set (rows st). id' r \<noteq> k)
          \<longrightarrow> patch_admin_requests e req st = Inr (Response 404 (Error ''Not found''), st))
       \<and> (trim s \<in> allowed \<longrightarrow> fault st = None \<longrightarrow> key_of st (param_id req) = Inr k
          \<longrightarrow> (\<exists>r\<in>set (rows st). id' r = k)
          \<longrightarrow> (\<exists>st'. patch_admin_requests e req st = Inr (Response 200 Ok, st')
                \<and> length (rows st') = length (rows st)
                \<and> (\<forall>i<length (rows st).
                      rows st' ! i =
                        (if id' (rows st ! i) = k then (rows st ! i)\<lparr>status := trim s\<rparr>
                         else rows st ! i))
                \<and> (\<exists>r'\<in>set (rows st'). id' r' = k \<and> status r' = trim s)
                \<and> fault st' = fault st \<and> key_of st' = key_of st
                \<and> next_id st' = next_id st \<and> clock st' = clock st))
       \<and> (\<forall>resp st'. patch_admin_requests e req st = Inr (resp, st') \<longrightarrow> st' \<noteq> st
          \<longrightarrow> trim s \<in> allowed \<and> resp = Response 200 Ok \<and> fault st = None
              \<and> (\<exists>k. key_of st (param_id req) = Inr k \<and> (\<exists>r\<in>set (rows st). id' r = k)))"
    by (intro conjI)
qed

lemma desk_update:
  "patch_admin_requests office (admin_request None ''7'' (Some (JObj [(''status'', JStr '' scheduled '')]))) desk =
     Inr (Response 200 Ok,
          desk\<lparr>rows := [request_row 7 100 ''scheduled'', request_row 8 200 ''requested'']\<rparr>)"
  by (simp add: patch_admin_requests_def requireAdmin_def office_def admin_request_def
      admin_update_def Let_def allowed_def trim_def is_space_def update_query_def desk_def
      read_key_def rowCount_def update_status_def request_row_def)

theorem admin_update_status_witness:
  "authorized office (admin_request None ''7'' (Some (JObj [(''status'', JStr '' scheduled '')])))
   \<and> toString (or_else (get_prop (Some (JObj [(''status'', JStr '' scheduled '')])) ''status'') (JStr []))
       = Inr '' scheduled ''
   \<and> trim '' scheduled '' \<in> allowed \<and> fault desk = None \<and> key_of desk ''7'' = Inr 7
   \<and> (\<exists>r\<in>set (rows desk). id' r = 7)
   \<and> (\<exists>st'. patch_admin_requests office
               (admin_request None ''7'' (Some (JObj [(''status'', JStr '' scheduled '')]))) desk =
               Inr (Response 200 Ok, st')
            \<and> (\<exists>r'\<in>set (rows st'). id' r' = 7 \<and> status r' = trim '' scheduled ''))
   \<and> key_of desk ''abc'' = Inl ''invalid input syntax for type integer''
   \<and> patch_admin_requests office
        (admin_request None ''abc'' (Some (JObj [(''status'', JStr ''scheduled'')]))) desk =
       Inr (Response 500
              (Error (message_or ''invalid input syntax for type integer'' ''Database update failed'')),
            desk)"
proof -
  let ?req = "admin_request None ''7'' (Some (JObj [(''status'', JStr '' scheduled '')]))"
  let ?bad = "admin_request None ''abc'' (Some (JObj [(''status'', JStr ''scheduled'')]))"
  have a: "authorized office ?req" "authorized office ?bad"
    by (simp_all add: authorized_def office_def admin_request_def)
  have s: "toString (or_else (get_prop (body ?req) ''status'') (JStr [])) = Inr '' scheduled ''"
    "toString (or_else (get_prop (body ?bad) ''status'') (JStr [])) = Inr ''scheduled''"
    by (simp_all add: admin_request_def)
  have s': "toString (or_else (get_prop (Some (JObj [(''status'', JStr '' scheduled '')])) ''status'') (JStr []))
       = Inr '' scheduled ''"
    by simp
  have t: "trim '' scheduled '' \<in> allowed" "trim ''scheduled'' \<in> allowed"
    by (simp_all add: trim_def is_space_def allowed_def)
  have f: "fault desk = None"
    by (simp add: desk_def)
  have k: "key_of desk (param_id ?req) = Inr 7"
    "key_of desk (param_id ?bad) = Inl ''invalid input syntax for type integer''"
    by (simp_all add: desk_def read_key_def admin_request_def)
  have k': "key_of desk ''7'' = Inr 7"
    "key_of desk ''abc'' = Inl ''invalid input syntax for type integer''"
    by (simp_all add: desk_def read_key_def)
  have r: "\<exists>r\<in>set (rows desk). id' r = 7"
    by (simp add: desk_def request_row_def)
  note th = admin_update_status [where e = office and st = desk and s = "'' scheduled ''"
      and k = 7 and req = ?req, rule_format, OF a(1) s(1)]
  have "\<exists>st'. patch_admin_requests office ?req desk = Inr (Response 200 Ok, st')
        \<and> length (rows st') = length (rows desk)
        \<and> (\<forall>i<length (rows desk).
              rows st' ! i =
                (if id' (rows desk ! i) = 7 then (rows desk ! i)\<lparr>status := trim '' scheduled ''\<rparr>
                 else rows desk ! i))
        \<and> (\<exists>r'\<in>set (rows st'). id' r' = 7 \<and> status r' = trim '' scheduled '')
        \<and> fault st' = fault desk \<and> key_of st' = key_of desk
        \<and> next_id st' = next_id desk \<and> clock st' = clock desk"
    by (rule th [THEN conjunct2, THEN conjunct2, THEN conjunct2, THEN conjunct2, THEN conjunct1,
          rule_format, OF t(1) f k(1) r])
  then have ok: "\<exists>st'. patch_admin_requests office ?req desk = Inr (Response 200 Ok, st')
        \<and> (\<exists>r'\<in>set (rows st'). id' r' = 7 \<and> status r' = trim '' scheduled '')"
    by blast
  note th' = admin_update_status [where e = office and st = desk and s = "''scheduled''"
      and m = "''invalid input syntax for type integer''" and req = ?bad, rule_format,
      OF a(2) s(2)]
  have bad: "patch_admin_requests office ?bad desk =
       Inr (Response 500
              (Error (message_or ''invalid input syntax for type integer'' ''Database update failed'')),
            desk)"
    by (rule th' [THEN conjunct2, THEN conjunct2, THEN conjunct1, rule_format, OF t(2) f k(2)])
  from a(1) s' t(1) f k' r ok bad show ?thesis
    by blast
qed

lemma admin_update_200:
  assumes "admin_update req st = Inr (Response 200 Ok, st')"
  obtains s k where "toString (or_else (get_prop (body req) ''status'') (JStr [])) = Inr s"
    "trim s \<in> allowed" "fault st = None" "key_of st (param_id req) = Inr k"
    "st' = st\<lparr>rows := update_status (trim s) k (rows st)\<rparr>"
proof -
  from assms obtain s where s: "toString (or_else (get_prop (body req) ''status'') (JStr [])) = Inr s"
    by (auto simp: admin_update_def bind_eq_Inr)
  from assms show thesis
    unfolding admin_update_cases [OF s]
    by (auto split: if_splits option.splits sum.splits intro: that [OF s])
qed

text \<open>
  Claim C7. When the status update answers 200, the rows of the store are as many as
  before and in the same places; a row with another id is the row it was; a row with the
  id of the request differs from the row it was in its status at most: its id, its time of
  creation, its date and window sequences, its name, phone, email, address and notes are
  the same. Nothing else of the store changes.
\<close>

theorem admin_update_frame:
  "patch_admin_requests e req st = Inr (Response 200 Ok, st')
   \<longrightarrow> (\<exists>s k. s \<in> allowed \<and> key_of st (param_id req) = Inr k
         \<and> length (rows st') = length (rows st)
         \<and> (\<forall>i<length (rows st).
               (id' (rows st ! i) \<noteq> k \<longrightarrow> rows st' ! i = rows st ! i)
             \<and> (id' (rows st ! i) = k \<longrightarrow>
                  rows st' ! i = (rows st ! i)\<lparr>status := s\<rparr>
                  \<and> id' (rows st' ! i) = id' (rows st ! i)
                  \<and> created_at (rows st' ! i) = created_at (rows st ! i)
                  \<and> pg_preferred_dates (rows st' ! i) = pg_preferred_dates (rows st ! i)
                  \<and> pg_preferred_windows (rows st' ! i) = pg_preferred_windows (rows st ! i)
                  \<and> col_name (rows st' ! i) = col_name (rows st ! i)
                  \<and> col_phone (rows st' ! i) = col_phone (rows st ! i)
                  \<and> col_email (rows st' ! i) = col_email (rows st ! i)
                  \<and> col_line1 (rows st' ! i) = col_line1 (rows st ! i)
                  \<and> col_line2 (rows st' ! i) = col_line2 (rows st ! i)
                  \<and> col_city (rows st' ! i) = col_city (rows st ! i)
                  \<and> col_state (rows st' ! i) = col_state (rows st ! i)
                  \<and> col_zip (rows st' ! i) = col_zip (rows st ! i)
                  \<and> col_notes (rows st' ! i) = col_notes (rows st ! i)))
         \<and> fault st' = fault st \<and> key_of st' = key_of st
         \<and> next_id st' = next_id st \<and> clock st' = clock st)"
proof
  assume ok: "patch_admin_requests e req st = Inr (Response 200 Ok, st')"
  have "authorized e req"
  proof (rule ccontr)
    assume "\<not> authorized e req"
    with ok show False by (simp add: server_routes_guarded)
  qed
  with ok have "admin_update req st = Inr (Response 200 Ok, st')"
    by (simp add: server_routes_guarded)
  then obtain s k where s: "trim s \<in> allowed" and k: "key_of st (param_id req) = Inr k"
    and st': "st' = st\<lparr>rows := update_status (trim s) k (rows st)\<rparr>"
    by (rule admin_update_200)
  show "\<exists>s k. s \<in> allowed \<and> key_of st (param_id req) = Inr k
         \<and> length (rows st') = length (rows st)
         \<and> (\<forall>i<length (rows st).
               (id' (rows st ! i) \<noteq> k \<longrightarrow> rows st' ! i = rows st ! i)
             \<and> (id' (rows st ! i) = k \<longrightarrow>
                  rows st' ! i = (rows st ! i)\<lparr>status := s\<rparr>
                  \<and> id' (rows st' ! i) = id' (rows st ! i)
                  \<and> created_at (rows st' ! i) = created_at (rows st ! i)
                  \<and> pg_preferred_dates (rows st' ! i) = pg_preferred_dates (rows st ! i)
                  \<and> pg_preferred_windows (rows st' ! i) = pg_preferred_windows (rows st ! i)
                  \<and> col_name (rows st' ! i) = col_name (rows st ! i)
                  \<and> col_phone (rows st' ! i) = col_phone (rows st ! i)
                  \<and> col_email (rows st' ! i) = col_email (rows st ! i)
                  \<and> col_line1 (rows st' ! i) = col_line1 (rows st ! i)
                  \<and> col_line2 (rows st' ! i) = col_line2 (rows st ! i)
                  \<and> col_city (rows st' ! i) = col_city (rows st ! i)
                  \<and> col_state (rows st' ! i) = col_state (rows st ! i)
                  \<and> col_zip (rows st' ! i) = col_zip (rows st ! i)
                  \<and> col_notes (rows st' ! i) = col_notes (rows st ! i)))
         \<and> fault st' = fault st \<and> key_of st' = key_of st
         \<and> next_id st' = next_id st \<and> clock st' = clock st"
    by (rule exI [of _ "trim s"], rule exI [of _ k])
      (simp add: s k st' length_update_status update_status_nth)
qed

theorem admin_update_frame_witness:
  "patch_admin_requests office (admin_request None ''7'' (Some (JObj [(''status'', JStr '' scheduled '')]))) desk =
     Inr (Response 200 Ok,
          desk\<lparr>rows := [request_row 7 100 ''scheduled'', request_row 8 200 ''requested'']\<rparr>)
   \<and> (\<exists>s k. s \<in> allowed \<and> key_of desk ''7'' = Inr k
        \<and> (\<forall>i<2. (id' (rows desk ! i) \<noteq> k \<longrightarrow>
                     [request_row 7 100 ''scheduled'', request_row 8 200 ''requested''] ! i = rows desk ! i)
                 \<and> (id' (rows desk ! i) = k \<longrightarrow>
                     [request_row 7 100 ''scheduled'', request_row 8 200 ''requested''] ! i
                       = (rows desk ! i)\<lparr>status := s\<rparr>)))"
proof -
  let ?req = "admin_request None ''7'' (Some (JObj [(''status'', JStr '' scheduled '')]))"
  let ?st' = "desk\<lparr>rows := [request_row 7 100 ''scheduled'', request_row 8 200 ''requested'']\<rparr>"
  have l: "length (rows desk) = 2" "param_id ?req = ''7''"
    "rows ?st' = [request_row 7 100 ''scheduled'', request_row 8 200 ''requested'']"
    by (simp_all add: desk_def admin_request_def)
  from admin_update_frame [where e = office and req = ?req and st = desk and st' = ?st', rule_format,
      OF desk_update]
  obtain s k where "s \<in> allowed" "key_of desk (param_id ?req) = Inr k"
    "\<forall>i<length (rows desk).
        (id' (rows desk ! i) \<noteq> k \<longrightarrow> rows ?st' ! i = rows desk ! i)
      \<and> (id' (rows desk ! i) = k \<longrightarrow> rows ?st' ! i = (rows desk ! i)\<lparr>status := s\<rparr>)"
    by blast
  then have "\<exists>s k. s \<in> allowed \<and> key_of desk ''7'' = Inr k
        \<and> (\<forall>i<2. (id' (rows desk ! i) \<noteq> k \<longrightarrow>
                     [request_row 7 100 ''scheduled'', request_row 8 200 ''requested''] ! i = rows desk ! i)
                 \<and> (id' (rows desk ! i) = k \<longrightarrow>
                     [request_row 7 100 ''scheduled'', request_row 8 200 ''requested''] ! i
                       = (rows desk ! i)\<lparr>status := s\<rparr>))"
    unfolding l by blast
  with desk_update show ?thesis by blast
qed

section \<open>The listing\<close>





lemma select_by_status_none: "\<forall>r\<in>set rs. status r \<noteq> s \<Longrightarrow> select_by_status s rs = []"
  by (simp add: select_by_status_def filter_False)







text \<open>
  Claim C10. The listing does not check its status filter against the three allowed
  values. For an authorized call with any string \<open>s\<close> as the status, the answer is 200
  with the rows selected for the trimmed \<open>s\<close> (for \<^verbatim>\<open>requested\<close> when \<open>s\<close> is empty), an
  empty sequence when no row matches, unless the store rejects the statement, when it is
  500; it is never 400, and the store is left as it was.
\<close>

theorem admin_list_any_status:
  "authorized e req \<longrightarrow> query_status req = Some (JStr s)
   \<longrightarrow> (\<exists>p. get_admin_requests e req st = Inr (Response (if fault st = None then 200 else 500) p, st)
           \<and> (fault st = None
                \<longrightarrow> p = OkRequests (select_by_status (trim (if s = [] then ''requested'' else s)) (rows st))
                  \<and> ((\<forall>r\<in>set (rows st). status r \<noteq> trim (if s = [] then ''requested'' else s))
                       \<longrightarrow> p = OkRequests [])))"
  by (auto simp: server_routes_guarded admin_list_def select_by_status_none split: option.splits)

lemma desk_listing_archived:
  "get_admin_requests office (admin_request (Some (JStr ''archived'')) [] None) desk =
     Inr (Response 200 (OkRequests []), desk)"
  by (simp add: get_admin_requests_def requireAdmin_def office_def admin_request_def
      admin_list_def Let_def trim_def is_space_def desk_def select_by_status_def request_row_def)

theorem admin_list_any_status_witness:
  "authorized office (admin_request (Some (JStr ''archived'')) [] None)
   \<and> query_status (admin_request (Some (JStr ''archived'')) [] None) = Some (JStr ''archived'')
   \<and> ''archived'' \<notin> allowed \<and> fault desk = None
   \<and> filter (\<lambda>r. status r = trim ''archived'') (rows desk) = []
   \<and> get_admin_requests office (admin_request (Some (JStr ''archived'')) [] None) desk =
       Inr (Response 200 (OkRequests []), desk)"
proof -
  let ?req = "admin_request (Some (JStr ''archived'')) [] None"
  have a: "authorized office ?req"
    by (simp add: authorized_def office_def admin_request_def)
  have q: "query_status ?req = Some (JStr ''archived'')"
    by (simp add: admin_request_def)
  have n: "''archived'' \<notin> allowed"
    by (simp add: allowed_def)
  have f: "fault desk = None"
    by (simp add: desk_def)
  have r: "\<forall>r\<in>set (rows desk). status r \<noteq> trim ''archived''"
    by (simp add: desk_def request_row_def trim_def is_space_def)
  from admin_list_any_status [where e = office and req = ?req and s = "''archived''" and st = desk,
      rule_format, OF a q]
  obtain p where p: "get_admin_requests office ?req desk = Inr (Response (if fault desk = None then 200 else 500) p, desk)
           \<and> (fault desk = None
                \<longrightarrow> p = OkRequests (select_by_status (trim (if ''archived'' = [] then ''requested'' else ''archived'')) (rows desk))
                  \<and> ((\<forall>r\<in>set (rows desk). status r \<noteq> trim (if ''archived'' = [] then ''requested'' else ''archived''))
                       \<longrightarrow> p = OkRequests []))" ..
  have "p = OkRequests []"
    using p f r by auto
  with p f have "get_admin_requests office ?req desk = Inr (Response 200 (OkRequests []), desk)"
    by simp
  moreover have "filter (\<lambda>r. status r = trim ''archived'') (rows desk) = []"
    using r by (simp add: filter_empty_conv)
  ultimately show ?thesis using a q n f by blast
qed

section \<open>Writing and reading the sequences\<close>

lemma skip_ws_Cons: "\<not> json_ws c \<Longrightarrow> skip_ws (c # cs) = c # cs"
  by (simp add: skip_ws_def)

lemma skip_ws_Nil: "skip_ws [] = []"
  by (simp add: skip_ws_def)

lemma parse_chars_plain:
  "list_all plain_char s \<Longrightarrow> parse_chars (s @ CHR 0x22 # rest) = Some (s, rest)"
  by (induction s) (auto simp: plain_char_def)

lemma stringify_nonempty: "simple v \<Longrightarrow> \<exists>c cs. JSON_stringify v = c # cs \<and> \<not> json_ws c \<and> c \<noteq> CHR '']''"
  by (cases v) (auto simp: quote_def json_ws_def)

lemma join_Cons_Cons: "join sep (x # y # ys) = x @ sep @ join sep (y # ys)"
  by simp

lemma parse_items_join:
  assumes "\<And>x n rest. x \<in> set xs \<Longrightarrow> length (JSON_stringify x) \<le> n
             \<Longrightarrow> parse_value n (JSON_stringify x @ rest) = Some (x, rest)"
    and "xs \<noteq> []"
    and "length (join '','' (map JSON_stringify xs)) < n"
  shows "parse_items n (join '','' (map JSON_stringify xs) @ CHR '']'' # rest) = Some (xs, rest)"
  using assms
proof (induction xs arbitrary: n)
  case Nil
  then show ?case by simp
next
  case (Cons x xs)
  from Cons.prems(3) obtain m where n: "n = Suc m"
    by (cases n) auto
  show ?case
  proof (cases xs)
    case Nil
    from Cons.prems(3) have "length (JSON_stringify x) \<le> m"
      by (simp add: n Nil)
    then have "parse_value m (JSON_stringify x @ CHR '']'' # rest) = Some (x, CHR '']'' # rest)"
      by (intro Cons.prems(1)) simp_all
    then show ?thesis
      by (simp add: n Nil skip_ws_Cons json_ws_def)
  next
    case (Cons y ys)
    have len: "length (JSON_stringify x) \<le> m" "length (join '','' (map JSON_stringify xs)) < m"
      using Cons.prems(3) by (simp_all add: n Cons)
    have "parse_value m (JSON_stringify x @ CHR '','' # join '','' (map JSON_stringify xs) @ CHR '']'' # rest)
        = Some (x, CHR '','' # join '','' (map JSON_stringify xs) @ CHR '']'' # rest)"
      using len(1) by (intro Cons.prems(1)) simp_all
    moreover have "parse_items m (join '','' (map JSON_stringify xs) @ CHR '']'' # rest) = Some (xs, rest)"
      using len(2) Cons.prems(1) by (intro Cons.IH) (simp_all add: Cons)
    ultimately show ?thesis
      by (simp add: n Cons skip_ws_Cons json_ws_def)
  qed
qed

lemma parse_value_stringify:
  "simple v \<Longrightarrow> length (JSON_stringify v) \<le> n
     \<Longrightarrow> parse_value n (JSON_stringify v @ rest) = Some (v, rest)"
proof (induction v arbitrary: n rest)
  case (JStr s)
  from JStr.prems(2) obtain m where n: "n = Suc m"
    by (cases n) (auto simp: quote_def)
  from JStr.prems(1) show ?case
    by (simp add: n plain_quote skip_ws_Cons json_ws_def parse_chars_plain)
next
  case (JArr xs)
  from JArr.prems(2) obtain m where n: "n = Suc m"
    by (cases n) auto
  show ?case
  proof (cases xs)
    case Nil
    then show ?thesis
      by (simp add: n skip_ws_Cons json_ws_def)
  next
    case (Cons y ys)
    let ?body = "join '','' (map JSON_stringify xs)"
    from JArr.prems(1) Cons have "simple y"
      by simp
    then obtain c cs where c: "JSON_stringify y = c # cs" "\<not> json_ws c" "c \<noteq> CHR '']''"
      using stringify_nonempty by blast
    have "\<exists>cs'. ?body = c # cs'"
      using c(1) Cons by (cases ys) simp_all
    then obtain cs' where body: "?body = c # cs'"
      by blast
    have "length ?body < m"
      using JArr.prems(2) by (simp add: n)
    moreover have "xs \<noteq> []"
      by (simp add: Cons)
    moreover have "\<And>x n rest. x \<in> set xs \<Longrightarrow> length (JSON_stringify x) \<le> n
             \<Longrightarrow> parse_value n (JSON_stringify x @ rest) = Some (x, rest)"
      using JArr.IH JArr.prems(1) by (simp add: list_all_iff)
    ultimately have items: "parse_items m (?body @ CHR '']'' # rest) = Some (xs, rest)"
      by (intro parse_items_join)
    have "parse_value (Suc m) (CHR ''['' # ?body @ CHR '']'' # rest) = Some (JArr xs, rest)"
      using items c(2,3) unfolding body
      by (simp add: skip_ws_Cons json_ws_def)
    then show ?thesis
      by (simp add: n)
  qed
qed simp_all

lemma JSON_parse_stringify: "simple v \<Longrightarrow> JSON_parse (JSON_stringify v) = Inr v"
  using parse_value_stringify [of v "length (JSON_stringify v)" "[]"]
  by (simp add: JSON_parse_def skip_ws_Nil)

section \<open>What the validators let through\<close>

lemma is_digit_plain: "is_digit c \<Longrightarrow> plain_char c"
  by (auto simp: is_digit_def plain_char_def)

lemma date_shaped_chars: "date_shaped s \<Longrightarrow> c \<in> set s \<Longrightarrow> is_digit c \<or> c = CHR ''-''"
proof -
  assume d: "date_shaped s" and c: "c \<in> set s"
  from d have "length s = 10"
    by (simp add: date_shaped_def)
  then obtain a b c' d' e f g h i j where s: "s = [a, b, c', d', e, f, g, h, i, j]"
    unfolding length_10 by blast
  from d c show ?thesis
    unfolding s by (auto simp: date_shaped_def)
qed

lemma date_shaped_plain: "date_shaped s \<Longrightarrow> list_all plain_char s"
  unfolding list_all_iff
proof
  fix c
  assume "date_shaped s" and "c \<in> set s"
  then have "is_digit c \<or> c = CHR ''-''"
    by (rule date_shaped_chars)
  then show "plain_char c"
    by (auto simp: is_digit_plain) (simp add: plain_char_def)
qed

lemma digit_nth: "n < 10 \<Longrightarrow> is_digit (''0123456789'' ! n)"
proof -
  assume "n < 10"
  then have "n \<in> {0, 1, 2, 3, 4, 5, 6, 7, 8, 9}"
    by auto
  then show ?thesis
    by (auto simp: is_digit_def)
qed

lemma show_nat_digits: "list_all is_digit (show_nat n)"
proof (induction n rule: show_nat.induct)
  case (1 n)
  show ?case
  proof (cases "n < 10")
    case True
    then show ?thesis
      by (subst show_nat.simps) (simp add: digit_nth)
  next
    case False
    with 1 show ?thesis
      by (subst show_nat.simps) (simp add: digit_nth)
  qed
qed

lemma show_nat_nonempty: "show_nat n \<noteq> []"
  by (subst show_nat.simps) simp

lemma show_int_not_date: "\<not> date_shaped (show_int i)"
proof
  assume d: "date_shaped (show_int i)"
  then have "length (show_int i) = 10"
    by (simp add: date_shaped_def)
  then obtain a b c d' e f g h k l where s: "show_int i = [a, b, c, d', e, f, g, h, k, l]"
    unfolding length_10 by blast
  from d have first: "is_digit a" and fifth: "e = CHR ''-''"
    unfolding s by (simp_all add: date_shaped_def)
  show False
  proof (cases "i < 0")
    case True
    with s have "a = CHR ''-''"
      by (simp add: show_int_def)
    with first show False
      by (simp add: is_digit_def)
  next
    case False
    then have "list_all is_digit (show_int i)"
      by (simp add: show_int_def show_nat_digits)
    then have "is_digit e"
      unfolding s by simp
    with fifth show False
      by (simp add: is_digit_def)
  qed
qed

lemma join_elems_comma: "join_elems (x # y # ys) = Inr t \<Longrightarrow> CHR '','' \<in> set t"
  by (auto simp: bind_eq_Inr)

lemma date_shaped_no_comma: "date_shaped t \<Longrightarrow> CHR '','' \<notin> set t"
  using date_shaped_chars [of t "CHR '',''"] by (auto simp: is_digit_def)

lemma date_shaped_simple: "toString d = Inr t \<Longrightarrow> date_shaped t \<Longrightarrow> simple d"
proof (induction d arbitrary: t)
  case JNull
  then show ?case by (auto simp: date_shaped_def)
next
  case (JBool b)
  then show ?case by (auto simp: date_shaped_def split: if_splits)
next
  case (JNum n)
  then show ?case by (auto simp: show_int_not_date)
next
  case (JStr s)
  then show ?case by (simp add: date_shaped_plain)
next
  case (JArr xs)
  show ?case
  proof (cases xs)
    case Nil
    with JArr.prems show ?thesis by (auto simp: date_shaped_def)
  next
    case (Cons x ys)
    show ?thesis
    proof (cases ys)
      case Nil
      with Cons JArr.prems have x: "x \<noteq> JNull" "toString x = Inr t"
        by (auto simp: date_shaped_def split: if_splits)
      have "simple x"
        using x(2) JArr.prems(2) by (intro JArr.IH) (simp_all add: Cons)
      then show ?thesis
        by (simp add: Cons Nil)
    next
      case (Cons y zs)
      with \<open>xs = x # ys\<close> JArr.prems(1) have "CHR '','' \<in> set t"
        by (auto intro: join_elems_comma)
      with JArr.prems(2) show ?thesis
        by (simp add: date_shaped_no_comma)
    qed
  qed
next
  case (JObj kvs)
  then show ?case by (auto simp: date_shaped_def split: if_splits)
qed

lemma date_errors_none: "date_errors ds = Inr [] \<Longrightarrow> list_all simple ds"
proof (induction ds)
  case Nil
  then show ?case by simp
next
  case (Cons d ds)
  from Cons.prems obtain t where "toString d = Inr t" "date_shaped t" "date_errors ds = Inr []"
    by (auto simp: bind_eq_Inr isValidISODate_def anchored_iso_date_re split: if_splits)
  with Cons.IH show ?case
    by (simp add: date_shaped_simple)
qed

lemma allowed_window_simple: "w \<in> allowedWindows \<Longrightarrow> simple w"
  by (auto simp: allowedWindows_def plain_char_def)

lemma window_errors_none: "window_errors ws = Inr [] \<Longrightarrow> list_all simple ws"
proof (induction ws)
  case Nil
  then show ?case by simp
next
  case (Cons w ws)
  from Cons.prems have "w \<in> allowedWindows" "window_errors ws = Inr []"
    by (auto simp: bind_eq_Inr split: if_splits)
  with Cons.IH show ?case
    by (simp add: allowed_window_simple)
qed

lemma validate_valid:
  assumes "validate b = Inr ([], c)"
  obtains ds ws where "dates (preferences c) = Some (JArr ds)" "windows (preferences c) = Some (JArr ws)"
    "simple (JArr ds)" "simple (JArr ws)" "ds \<noteq> []" "ws \<noteq> []"
proof -
  from assms obtain e3 e4 nm ph em l1 l2 ci st zp nt where
    e3: "each_item date_errors (get_prop (get_prop b ''preferences'') ''dates'') = Inr e3" and
    e4: "each_item window_errors (get_prop (get_prop b ''preferences'') ''windows'') = Inr e4" and
    errs: "[] = (if no_items (get_prop (get_prop b ''preferences'') ''dates'')
               then [''Select at least 1 day.''] else [])
            @ (if no_items (get_prop (get_prop b ''preferences'') ''windows'')
               then [''Select at least 1 time window.''] else [])
            @ e3 @ e4
            @ required nm ''Name is required.''
            @ required ph ''Phone is required.''
            @ required l1 ''Street address is required.''
            @ required ci ''City is required.''
            @ required st ''State is required.''
            @ required zp ''ZIP is required.''" and
    c: "c = \<lparr> preferences = \<lparr> dates = get_prop (get_prop b ''preferences'') ''dates'',
                             windows = get_prop (get_prop b ''preferences'') ''windows'' \<rparr>,
           customer = \<lparr> name = nm, phone = ph, email = or_null em \<rparr>,
           address = \<lparr> line1 = l1, line2 = or_null l2, city = ci, state = st, zip' = zp \<rparr>,
           notes = or_null nt \<rparr>"
    by (rule validate_Inr)
  from errs have nd: "\<not> no_items (get_prop (get_prop b ''preferences'') ''dates'')"
    and nw: "\<not> no_items (get_prop (get_prop b ''preferences'') ''windows'')"
    and e: "e3 = []" "e4 = []"
    by (auto split: if_splits)
  from nd obtain ds where ds: "get_prop (get_prop b ''preferences'') ''dates'' = Some (JArr ds)" "ds \<noteq> []"
    by (cases "get_prop (get_prop b ''preferences'') ''dates''" rule: no_items.cases) auto
  from nw obtain ws where ws: "get_prop (get_prop b ''preferences'') ''windows'' = Some (JArr ws)" "ws \<noteq> []"
    by (cases "get_prop (get_prop b ''preferences'') ''windows''" rule: no_items.cases) auto
  from e3 e ds have "list_all simple ds"
    by (simp add: date_errors_none)
  moreover from e4 e ws have "list_all simple ws"
    by (simp add: window_errors_none)
  ultimately show thesis
    using ds ws by (intro that [of ds ws]) (simp_all add: c)
qed

section \<open>A stored request in the listing\<close>

lemma map_rows_nth:
  "map_rows f xs = Inr ys \<Longrightarrow> length ys = length xs \<and> (\<forall>i<length xs. f (xs ! i) = Inr (ys ! i))"
proof (induction xs arbitrary: ys)
  case Nil
  then show ?case by simp
next
  case (Cons x xs)
  from Cons.prems obtain y ys' where y: "f x = Inr y" "map_rows f xs = Inr ys'" "ys = y # ys'"
    by (auto simp: bind_eq_Inr)
  with Cons.IH [of ys'] show ?case
    by (auto simp: nth_Cons split: nat.splits)
qed

lemma map_rows_member:
  assumes "map_rows f xs = Inr ys" and "y \<in> set ys"
  obtains x where "x \<in> set xs" "f x = Inr y"
proof -
  from assms(2) obtain i where i: "i < length ys" "ys ! i = y"
    by (auto simp: in_set_conv_nth)
  with map_rows_nth [OF assms(1)] have "xs ! i \<in> set xs" "f (xs ! i) = Inr y"
    by auto
  then show thesis
    by (rule that)
qed

lemma list_requests_200:
  assumes "list_requests q st = Inr (Response 200 (OkRequests out), st')"
  obtains s where "map_rows list_entry (select_by_status s (rows st)) = Inr out"
  using assms
  by (auto simp: list_requests_def bind_eq_Inr split: option.splits)

lemma list_entry_Inr:
  assumes "list_entry r = Inr e"
  shows "lite_row.truncate e = r"
    and "JSON_parse (preferred_dates_json r) = Inr (preferred_dates e)"
    and "JSON_parse (preferred_windows_json r) = Inr (preferred_windows e)"
  using assms
  by (auto simp: list_entry_def bind_eq_Inr lite_row.defs listed_row.defs columns.defs)

lemma insert_request_valid:
  assumes "fault st = None" "dates (preferences c) = Some d" "windows (preferences c) = Some w"
  obtains r where
    "insert_request st c = Inr (next_id st, st\<lparr>rows := rows st @ [r], next_id := next_id st + 1\<rparr>)"
    "id' r = next_id st" "status r = ''requested''"
    "preferred_dates_json r = JSON_stringify d" "preferred_windows_json r = JSON_stringify w"
  using assms by (simp add: insert_request_def)

text \<open>
  Claim C9. When the validator of the SQLite server accepts a submission and the store
  executes the statement, the handler answers 200 with the generated id and adds one row,
  whose two text columns are \<^verbatim>\<open>JSON.stringify\<close> of the date and window sequences of the
  normalized record; the callback of the listing reads the same sequences again from that
  row; and in every listing that returns, an entry made of that row carries those
  sequences.
\<close>

theorem sequences_round_trip:
  "validate (body req) = Inr ([], c) \<longrightarrow> fault st = None
   \<longrightarrow> (\<exists>d w r. dates (preferences c) = Some d \<and> windows (preferences c) = Some w
          \<and> post_booking_request req st =
               Inr (Response 200 (OkRequestId (next_id st)),
                    st\<lparr>rows := rows st @ [r], next_id := next_id st + 1\<rparr>)
          \<and> id' r = next_id st
          \<and> preferred_dates_json r = JSON_stringify d
          \<and> preferred_windows_json r = JSON_stringify w
          \<and> JSON_parse (preferred_dates_json r) = Inr d
          \<and> JSON_parse (preferred_windows_json r) = Inr w
          \<and> list_entry r = Inr (lite_row.extend r (listed_row.fields d w))
          \<and> (\<forall>q st2 st3 out e.
                list_requests q st2 = Inr (Response 200 (OkRequests out), st3)
                \<longrightarrow> e \<in> set out \<longrightarrow> lite_row.truncate e = r
                \<longrightarrow> preferred_dates e = d \<and> preferred_windows e = w))"
proof (intro impI)
  assume v: "validate (body req) = Inr ([], c)" and f: "fault st = None"
  from v obtain ds ws where c: "dates (preferences c) = Some (JArr ds)"
    "windows (preferences c) = Some (JArr ws)" and simple: "simple (JArr ds)" "simple (JArr ws)"
    by (rule validate_valid)
  from f c obtain r where r:
    "insert_request st c = Inr (next_id st, st\<lparr>rows := rows st @ [r], next_id := next_id st + 1\<rparr>)"
    "id' r = next_id st"
    "preferred_dates_json r = JSON_stringify (JArr ds)"
    "preferred_windows_json r = JSON_stringify (JArr ws)"
    by (rule insert_request_valid)
  have parsed: "JSON_parse (preferred_dates_json r) = Inr (JArr ds)"
    "JSON_parse (preferred_windows_json r) = Inr (JArr ws)"
    unfolding r by (rule JSON_parse_stringify [OF simple(1)], rule JSON_parse_stringify [OF simple(2)])
  have post: "post_booking_request req st =
      Inr (Response 200 (OkRequestId (next_id st)), st\<lparr>rows := rows st @ [r], next_id := next_id st + 1\<rparr>)"
    by (simp add: post_booking_request_def v r(1))
  have entry: "list_entry r = Inr (lite_row.extend r (listed_row.fields (JArr ds) (JArr ws)))"
    by (simp add: list_entry_def parsed)
  have listing: "preferred_dates e = JArr ds \<and> preferred_windows e = JArr ws"
    if l: "list_requests q st2 = Inr (Response 200 (OkRequests out), st3)"
      and e: "e \<in> set out" "lite_row.truncate e = r" for q st2 st3 out e
  proof -
    from l obtain s where "map_rows list_entry (select_by_status s (rows st2)) = Inr out"
      by (rule list_requests_200)
    then obtain x where "list_entry x = Inr e"
      using e(1) by (rule map_rows_member)
    from list_entry_Inr [OF this] e(2) parsed show ?thesis
      by simp
  qed
  show "\<exists>d w r. dates (preferences c) = Some d \<and> windows (preferences c) = Some w
          \<and> post_booking_request req st =
               Inr (Response 200 (OkRequestId (next_id st)),
                    st\<lparr>rows := rows st @ [r], next_id := next_id st + 1\<rparr>)
          \<and> id' r = next_id st
          \<and> preferred_dates_json r = JSON_stringify d
          \<and> preferred_windows_json r = JSON_stringify w
          \<and> JSON_parse (preferred_dates_json r) = Inr d
          \<and> JSON_parse (preferred_windows_json r) = Inr w
          \<and> list_entry r = Inr (lite_row.extend r (listed_row.fields d w))
          \<and> (\<forall>q st2 st3 out e.
                list_requests q st2 = Inr (Response 200 (OkRequests out), st3)
                \<longrightarrow> e \<in> set out \<longrightarrow> lite_row.truncate e = r
                \<longrightarrow> preferred_dates e = d \<and> preferred_windows e = w)"
    using c post r(2,3,4) parsed entry listing
    by (intro exI [of _ "JArr ds"] exI [of _ "JArr ws"] exI [of _ r]) blast
qed

lemma validate_full_submission:
  "validate (Some full_submission) =
     Inr ([], submitted (Some (JArr [JStr ''2025-03-01''])) (Some (JArr [JStr ''morning''])) ''UT'')"
  by (simp add: validate_def full_submission_def submitted_def isValidISODate_JStr
      date_shaped_def is_digit_def allowedWindows_def trimmed_def trim_def is_space_def
      normalizePhone_def required_def or_null_def)

lemma post_full_submission:
  "post_booking_request (anonymous\<lparr>body := Some full_submission\<rparr>) empty_shop =
     Inr (Response 200 (OkRequestId 1), shop)"
  by (simp add: post_booking_request_def validate_full_submission anonymous_def
      insert_request_def empty_shop_def shop_def stored_row_def submitted_def)

theorem sequences_round_trip_witness:
  "validate (body (anonymous\<lparr>body := Some full_submission\<rparr>)) =
     Inr ([], submitted (Some (JArr [JStr ''2025-03-01''])) (Some (JArr [JStr ''morning''])) ''UT'')
   \<and> fault empty_shop = None
   \<and> post_booking_request (anonymous\<lparr>body := Some full_submission\<rparr>) empty_shop =
       Inr (Response 200 (OkRequestId 1), shop)
   \<and> list_requests anonymous shop =
       Inr (Response 200
              (OkRequests [lite_row.extend stored_row
                 (listed_row.fields (JArr [JStr ''2025-03-01'']) (JArr [JStr ''morning'']))]),
            shop)
   \<and> JSON_parse (preferred_dates_json stored_row) = Inr (JArr [JStr ''2025-03-01''])
   \<and> JSON_parse (preferred_windows_json stored_row) = Inr (JArr [JStr ''morning''])"
proof -
  let ?req = "anonymous\<lparr>body := Some full_submission\<rparr>"
  let ?c = "submitted (Some (JArr [JStr ''2025-03-01''])) (Some (JArr [JStr ''morning''])) ''UT''"
  have v: "validate (body ?req) = Inr ([], ?c)"
    by (simp add: validate_full_submission)
  have f: "fault empty_shop = None"
    by (simp add: empty_shop_def)
  from sequences_round_trip [where req = ?req and c = ?c and st = empty_shop, rule_format, OF v f]
  obtain d w r where d: "dates (preferences ?c) = Some d" "windows (preferences ?c) = Some w"
    and p: "post_booking_request ?req empty_shop =
               Inr (Response 200 (OkRequestId (next_id empty_shop)),
                    empty_shop\<lparr>rows := rows empty_shop @ [r], next_id := next_id empty_shop + 1\<rparr>)"
    and j: "JSON_parse (preferred_dates_json r) = Inr d" "JSON_parse (preferred_windows_json r) = Inr w"
    by blast
  from d have dw: "d = JArr [JStr ''2025-03-01'']" "w = JArr [JStr ''morning'']"
    by (simp_all add: submitted_def)
  from p post_full_submission have "rows shop = rows empty_shop @ [r]"
    by (simp add: shop_def empty_shop_def)
  then have "r = stored_row"
    by (simp add: shop_def empty_shop_def)
  with j dw have "JSON_parse (preferred_dates_json stored_row) = Inr (JArr [JStr ''2025-03-01''])"
    "JSON_parse (preferred_windows_json stored_row) = Inr (JArr [JStr ''morning''])"
    by simp_all
  with v f post_full_submission list_shop show ?thesis
    by blast
qed

end
